theory Spec2Isabelle
  imports Complex_Main "HOL-Library.Multiset" "HOL-Library.Sublist"
begin

section \<open>Python helpers used by the scripts\<close>

text \<open>
  Python strings and byte strings are modelled as lists of 8-bit characters.
  The helpers below follow the Python built-ins the three scripts call:
  \<^verbatim>\<open>str.split()\<close>, \<^verbatim>\<open>str.split('\n')\<close>, \<^verbatim>\<open>str.join\<close>, \<^verbatim>\<open>str(int)\<close>, \<^verbatim>\<open>int(str)\<close>,
  \<^verbatim>\<open>os.path.join\<close> (POSIX flavour, two arguments) and \<^verbatim>\<open>file.readline\<close>.
\<close>

definition py_isspace :: "char \<Rightarrow> bool" where
  "py_isspace c = (c \<in> set [CHR 0x09, CHR 0x0A, CHR 0x0B, CHR 0x0C, CHR 0x0D,
                              CHR 0x1C, CHR 0x1D, CHR 0x1E, CHR 0x1F, CHR 0x20,
                              CHR 0x85, CHR 0xA0])"

text \<open>
  \<^verbatim>\<open>s.split()\<close>: split at runs of whitespace, no empty fields. The whitespace characters
  are those of \<^verbatim>\<open>str.isspace\<close> among the code points below 256.
\<close>

fun py_split_acc :: "string \<Rightarrow> string \<Rightarrow> string list" where
  "py_split_acc cur [] = (if cur = [] then [] else [cur])"
| "py_split_acc cur (c # cs) =
     (if py_isspace c
      then (if cur = [] then py_split_acc [] cs else cur # py_split_acc [] cs)
      else py_split_acc (cur @ [c]) cs)"

definition py_split :: "string \<Rightarrow> string list" where
  "py_split s = py_split_acc [] s"

text \<open>\<^verbatim>\<open>s.split(d)\<close> for a one-character separator: empty fields are kept.\<close>

fun split_on :: "char \<Rightarrow> string \<Rightarrow> string list" where
  "split_on d [] = [[]]"
| "split_on d (c # cs) =
     (if c = d then [] # split_on d cs
      else (case split_on d cs of
              [] \<Rightarrow> [[c]]
            | l # ls \<Rightarrow> (c # l) # ls))"

fun py_join :: "string \<Rightarrow> string list \<Rightarrow> string" where
  "py_join sep [] = []"
| "py_join sep [x] = x"
| "py_join sep (x # y # ys) = x @ sep @ py_join sep (y # ys)"

fun str_nat :: "nat \<Rightarrow> string" where
  "str_nat n = (if n < 10 then [''0123456789'' ! n]
                else str_nat (n div 10) @ [''0123456789'' ! (n mod 10)])"

definition py_str :: "int \<Rightarrow> string" where
  "py_str i = (if i < 0 then CHR ''-'' # str_nat (nat (- i)) else str_nat (nat i))"

definition os_path_join :: "string \<Rightarrow> string \<Rightarrow> string" where
  "os_path_join a b =
     (if prefix ''/'' b then b
      else if a = [] \<or> last a = CHR ''/'' then a @ b
      else a @ ''/'' @ b)"

section \<open>The parameter test runner (opensplat_param_test_quick.py)\<close>

subsection \<open>Data classes\<close>

text \<open>
  \<^verbatim>\<open>TestCase.params\<close> is a dictionary read in insertion order, hence an association
  list. \<^verbatim>\<open>TestResult.duration\<close> is a difference of two clock readings; the readings are
  taken as real numbers.
\<close>

record TestCase =
  name :: string
  description :: string
  params :: "(string \<times> string) list"

definition get_param_str :: "TestCase \<Rightarrow> string" where
  "get_param_str tc =
     py_join '' ''
       (map (\<lambda>(k, v). if \<not> prefix ''-'' k then ''--'' @ k @ '' '' @ v else k @ '' '' @ v)
            (params tc))"

record TestResult =
  test_case :: TestCase
  success :: bool
  duration :: real
  output_file :: string
  gpu_id :: int
  error_msg :: "string option"

record OpenSplatTester =
  opensplat_path :: string
  data_path :: string
  output_dir :: string
  max_workers :: int
  timeout :: int

subsection \<open>Exceptions and the outside world\<close>

text \<open>
  An exception is a value; it carries the text \<^verbatim>\<open>str(e)\<close>. The handlers of the source
  tell \<^verbatim>\<open>subprocess.TimeoutExpired\<close> from every other \<^verbatim>\<open>Exception\<close>, so the model
  does too. A function that may raise returns \<open>exn + 'a\<close>, with \<open>Inl\<close> the raised
  exception.
\<close>

datatype exn = TimeoutExpired string | Exception string

fun str_exn :: "exn \<Rightarrow> string" where
  "str_exn (TimeoutExpired m) = m"
| "str_exn (Exception m) = m"

record CompletedProcess =
  returncode :: int
  stdout :: string
  stderr :: string

text \<open>
  What the world outside the script does during one call of \<^verbatim>\<open>run_single_test\<close>:
  the ambient environment, the behaviour of \<^verbatim>\<open>subprocess.run\<close> on a command line, an
  environment and an optional timeout, the behaviour of \<^verbatim>\<open>os.path.getsize\<close> afterwards (the
  size, or the message of the \<^verbatim>\<open>OSError\<close>), and the readings of \<^verbatim>\<open>time.time()\<close>:
  before the \<^verbatim>\<open>try\<close>, after \<^verbatim>\<open>subprocess.run\<close> has returned, and inside an
  \<^verbatim>\<open>except\<close> handler. Console output is not part of this first model: the print calls
  are taken to succeed. The subsection on the fallible console gives the same methods
  with writes that may raise.
\<close>

record trial_io =
  environ :: "string \<rightharpoonup> string"
  subprocess_run ::
    "string list \<Rightarrow> (string \<rightharpoonup> string) \<Rightarrow> int option \<Rightarrow> exn + CompletedProcess"
  getsize :: "string \<Rightarrow> string + nat"
  time_start :: real
  time_after_run :: real
  time_in_handler :: real

subsection \<open>run_single_test\<close>

text \<open>The body of the \<^verbatim>\<open>try\<close> block (source lines 105 to 122).\<close>

definition run_single_test_try ::
  "OpenSplatTester \<Rightarrow> trial_io \<Rightarrow> TestCase \<Rightarrow> int \<Rightarrow> string \<Rightarrow> string list
     \<Rightarrow> (string \<rightharpoonup> string) \<Rightarrow> real \<Rightarrow> exn + TestResult" where
  "run_single_test_try self io tc gpu outfile cmd env start_time =
     (case subprocess_run io cmd env (Some (timeout self)) of
        Inl e \<Rightarrow> Inl e
      | Inr result \<Rightarrow>
          (let dur = time_after_run io - start_time in
           if returncode result = 0
           then (case getsize io outfile of
                   Inl m \<Rightarrow> Inl (Exception m)
                 | Inr file_size \<Rightarrow>
                     Inr \<lparr>test_case = tc, success = True, duration = dur,
                          output_file = outfile, gpu_id = gpu, error_msg = None\<rparr>)
           else (let msg = (if stderr result \<noteq> [] then stderr result
                            else ''Unknown error'') in
                 Inr \<lparr>test_case = tc, success = False, duration = dur,
                      output_file = outfile, gpu_id = gpu, error_msg = Some msg\<rparr>)))"

text \<open>
  The whole method: the command line and the environment are built first, then the
  \<^verbatim>\<open>try\<close> block runs under the two handlers.
\<close>

definition derived_output_file :: "OpenSplatTester \<Rightarrow> TestCase \<Rightarrow> string" where
  "derived_output_file self tc = os_path_join (output_dir self) (name tc @ ''.ply'')"

definition build_cmd :: "OpenSplatTester \<Rightarrow> TestCase \<Rightarrow> string list" where
  "build_cmd self tc =
     [opensplat_path self, ''-o'', derived_output_file self tc]
       @ py_split (get_param_str tc) @ [data_path self]"

definition build_env :: "trial_io \<Rightarrow> int \<Rightarrow> (string \<rightharpoonup> string)" where
  "build_env io gpu = (environ io)(''CUDA_VISIBLE_DEVICES'' \<mapsto> py_str gpu)"

definition run_single_test ::
  "OpenSplatTester \<Rightarrow> trial_io \<Rightarrow> TestCase \<Rightarrow> int \<Rightarrow> exn + TestResult" where
  "run_single_test self io tc gpu =
     (let outfile = derived_output_file self tc;
          cmd = build_cmd self tc;
          env = build_env io gpu;
          start_time = time_start io
      in case run_single_test_try self io tc gpu outfile cmd env start_time of
           Inr r \<Rightarrow> Inr r
         | Inl (TimeoutExpired m) \<Rightarrow>
             Inr \<lparr>test_case = tc, success = False,
                  duration = time_in_handler io - start_time,
                  output_file = outfile, gpu_id = gpu, error_msg = Some ''Timeout''\<rparr>
         | Inl (Exception m) \<Rightarrow>
             Inr \<lparr>test_case = tc, success = False,
                  duration = time_in_handler io - start_time,
                  output_file = outfile, gpu_id = gpu, error_msg = Some m\<rparr>)"

subsection \<open>run_all_tests\<close>

text \<open>
  The serial branch (\<^verbatim>\<open>max_workers <= 1\<close>): the trials run in input order on device 0.
  The loop has no handler of its own, so an exception of \<^verbatim>\<open>run_single_test\<close> would leave
  it. The trial at input index \<open>i\<close> meets the world \<open>io i\<close>.
\<close>

fun run_serial_loop ::
  "OpenSplatTester \<Rightarrow> (nat \<Rightarrow> trial_io) \<Rightarrow> nat \<Rightarrow> TestCase list \<Rightarrow> TestResult list
     \<Rightarrow> exn + TestResult list" where
  "run_serial_loop self io i [] results = Inr results"
| "run_serial_loop self io i (tc # rest) results =
     (case run_single_test self (io i) tc 0 of
        Inl e \<Rightarrow> Inl e
      | Inr r \<Rightarrow> run_serial_loop self io (Suc i) rest (results @ [r]))"

text \<open>
  The parallel branch. \<^verbatim>\<open>gpu_assignments\<close> is the list comprehension of line 329.
  \<^verbatim>\<open>ThreadPoolExecutor(max_workers=w)\<close> raises \<^verbatim>\<open>ValueError\<close> for \<open>w \<le> 0\<close>.
  Every submitted future completes exactly once, so \<^verbatim>\<open>as_completed\<close> yields the futures
  in some order \<open>order\<close>, a permutation of the submission indices; the collecting loop
  (lines 340 to 351) appends one result per future, converting an exception of the
  future into a failed result.
\<close>

definition gpu_assignments :: "int \<Rightarrow> nat \<Rightarrow> int list" where
  "gpu_assignments w n = map (\<lambda>i. int i mod w) [0..<n]"

definition ThreadPoolExecutor :: "int \<Rightarrow> exn + int" where
  "ThreadPoolExecutor w =
     (if w \<le> 0 then Inl (Exception ''max_workers must be greater than 0'') else Inr w)"

definition collect_future ::
  "OpenSplatTester \<Rightarrow> (nat \<Rightarrow> trial_io) \<Rightarrow> TestCase list \<Rightarrow> int list \<Rightarrow> nat \<Rightarrow> TestResult" where
  "collect_future self io tcs gpus index =
     (case run_single_test self (io index) (tcs ! index) (gpus ! index) of
        Inr r \<Rightarrow> r
      | Inl e \<Rightarrow> \<lparr>test_case = tcs ! index, success = False, duration = 0,
                  output_file = [], gpu_id = gpus ! index, error_msg = Some (str_exn e)\<rparr>)"

definition run_parallel_path ::
  "OpenSplatTester \<Rightarrow> (nat \<Rightarrow> trial_io) \<Rightarrow> nat list \<Rightarrow> TestCase list
     \<Rightarrow> exn + TestResult list" where
  "run_parallel_path self io order tcs =
     (let gpus = gpu_assignments (max_workers self) (length tcs) in
      case ThreadPoolExecutor (max_workers self) of
        Inl e \<Rightarrow> Inl e
      | Inr executor \<Rightarrow> Inr (map (collect_future self io tcs gpus) order))"

text \<open>
  \<^verbatim>\<open>run_all_tests\<close>. The argument \<open>defaults\<close> stands for the list returned by
  \<^verbatim>\<open>define_test_cases()\<close>, used when no list is passed.
\<close>

definition run_all_tests ::
  "OpenSplatTester \<Rightarrow> TestCase list \<Rightarrow> (nat \<Rightarrow> trial_io) \<Rightarrow> nat list
     \<Rightarrow> TestCase list option \<Rightarrow> exn + TestResult list" where
  "run_all_tests self defaults io order test_cases =
     (let tcs = (case test_cases of None \<Rightarrow> defaults | Some l \<Rightarrow> l) in
      if max_workers self \<le> 1 then run_serial_loop self io 0 tcs []
      else run_parallel_path self io order tcs)"

subsection \<open>The constructor and the failure section of the report\<close>


text \<open>
  \<^verbatim>\<open>generate_report\<close>, lines 383 to 393: the failed results, and for each the error text
  that is written into the report.
\<close>

definition failed_results :: "TestResult list \<Rightarrow> TestResult list" where
  "failed_results results = filter (\<lambda>r. \<not> success r) results"


subsection \<open>The runner with a fallible console\<close>

text \<open>
  The definitions of \<open>run_single_test\<close> and \<open>run_all_tests\<close> above take every write to the
  console to succeed and every exception to be of class \<^verbatim>\<open>Exception\<close>. The definitions of
  this subsection follow the same source lines without these two assumptions.

  What leaves a function is now either an exception of class \<^verbatim>\<open>Exception\<close> (\<open>Exc\<close>, which
  an \<^verbatim>\<open>except Exception\<close> clause catches) or one outside that class (\<open>BaseExc\<close>, such as
  \<^verbatim>\<open>KeyboardInterrupt\<close> or \<^verbatim>\<open>SystemExit\<close>, which it does not catch).

  For one call of \<^verbatim>\<open>run_single_test\<close>, a \<open>console_io\<close> tells what each write does:
  \<open>None\<close> when the text is written, the message of the exception when the write raises
  (an encoding error, a closed pipe). \<open>print_start\<close> stands for the five writes of lines 96
  to 100, \<open>print_success\<close> for line 117, \<open>print_failure\<close> for line 121, \<open>print_timeout\<close> for
  line 126 and \<open>print_exception\<close> for line 130. \<open>interrupt\<close> is an exception outside class
  \<^verbatim>\<open>Exception\<close> that arrives while \<^verbatim>\<open>subprocess.run\<close> waits.
\<close>

datatype raised = Exc exn | BaseExc string

record console_io =
  print_start :: "string option"
  print_success :: "string option"
  print_failure :: "string option"
  print_timeout :: "string option"
  print_exception :: "string option"
  interrupt :: "string option"

definition quiet_console :: console_io where
  "quiet_console =
     \<lparr>print_start = None, print_success = None, print_failure = None,
      print_timeout = None, print_exception = None, interrupt = None\<rparr>"

text \<open>The body of the \<^verbatim>\<open>try\<close> block, lines 105 to 122, with its two writes.\<close>

definition run_single_test_try_full ::
  "OpenSplatTester \<Rightarrow> trial_io \<Rightarrow> console_io \<Rightarrow> TestCase \<Rightarrow> int \<Rightarrow> string \<Rightarrow> string list
     \<Rightarrow> (string \<rightharpoonup> string) \<Rightarrow> real \<Rightarrow> raised + TestResult" where
  "run_single_test_try_full self io con tc gpu outfile cmd env start_time =
     (case interrupt con of
        Some m \<Rightarrow> Inl (BaseExc m)
      | None \<Rightarrow>
          (case subprocess_run io cmd env (Some (timeout self)) of
             Inl e \<Rightarrow> Inl (Exc e)
           | Inr result \<Rightarrow>
               (let dur = time_after_run io - start_time in
                if returncode result = 0
                then (case getsize io outfile of
                        Inl m \<Rightarrow> Inl (Exc (Exception m))
                      | Inr file_size \<Rightarrow>
                          (case print_success con of
                             Some m \<Rightarrow> Inl (Exc (Exception m))
                           | None \<Rightarrow>
                               Inr \<lparr>test_case = tc, success = True, duration = dur,
                                    output_file = outfile, gpu_id = gpu, error_msg = None\<rparr>))
                else (let msg = (if stderr result \<noteq> [] then stderr result
                                 else ''Unknown error'') in
                      case print_failure con of
                        Some m \<Rightarrow> Inl (Exc (Exception m))
                      | None \<Rightarrow>
                          Inr \<lparr>test_case = tc, success = False, duration = dur,
                               output_file = outfile, gpu_id = gpu, error_msg = Some msg\<rparr>))))"

text \<open>
  The whole method. The writes of lines 96 to 100 come before the \<^verbatim>\<open>try\<close>, and each
  handler writes its own line before it returns: what these writes raise leaves the
  method.
\<close>

definition run_single_test_full ::
  "OpenSplatTester \<Rightarrow> trial_io \<Rightarrow> console_io \<Rightarrow> TestCase \<Rightarrow> int \<Rightarrow> raised + TestResult" where
  "run_single_test_full self io con tc gpu =
     (let outfile = derived_output_file self tc;
          cmd = build_cmd self tc;
          env = build_env io gpu
      in case print_start con of
           Some m \<Rightarrow> Inl (Exc (Exception m))
         | None \<Rightarrow>
             (let start_time = time_start io in
              case run_single_test_try_full self io con tc gpu outfile cmd env start_time of
                Inr r \<Rightarrow> Inr r
              | Inl (Exc (TimeoutExpired m)) \<Rightarrow>
                  (case print_timeout con of
                     Some m' \<Rightarrow> Inl (Exc (Exception m'))
                   | None \<Rightarrow>
                       Inr \<lparr>test_case = tc, success = False,
                            duration = time_in_handler io - start_time,
                            output_file = outfile, gpu_id = gpu,
                            error_msg = Some ''Timeout''\<rparr>)
              | Inl (Exc (Exception m)) \<Rightarrow>
                  (case print_exception con of
                     Some m' \<Rightarrow> Inl (Exc (Exception m'))
                   | None \<Rightarrow>
                       Inr \<lparr>test_case = tc, success = False,
                            duration = time_in_handler io - start_time,
                            output_file = outfile, gpu_id = gpu, error_msg = Some m\<rparr>)
              | Inl (BaseExc m) \<Rightarrow> Inl (BaseExc m)))"

text \<open>
  For \<^verbatim>\<open>run_all_tests\<close>, a \<open>sched_console\<close> tells what its own writes do: \<open>print_header\<close>
  stands for the writes of lines 309 to 316, \<open>print_progress i\<close> for line 323 before the
  trial at index \<open>i\<close>, \<open>print_done i\<close> for line 346 and \<open>print_fault i\<close> for line 349 when
  the future of index \<open>i\<close> is collected.
\<close>

record sched_console =
  print_header :: "string option"
  print_progress :: "nat \<Rightarrow> string option"
  print_done :: "nat \<Rightarrow> string option"
  print_fault :: "nat \<Rightarrow> string option"

definition quiet_sched :: sched_console where
  "quiet_sched =
     \<lparr>print_header = None, print_progress = (\<lambda>i. None), print_done = (\<lambda>i. None),
      print_fault = (\<lambda>i. None)\<rparr>"

text \<open>The serial loop, lines 322 to 325: no handler.\<close>

fun run_serial_loop_full ::
  "OpenSplatTester \<Rightarrow> (nat \<Rightarrow> trial_io) \<Rightarrow> (nat \<Rightarrow> console_io) \<Rightarrow> sched_console \<Rightarrow> nat
     \<Rightarrow> TestCase list \<Rightarrow> TestResult list \<Rightarrow> raised + TestResult list" where
  "run_serial_loop_full self io con sched i [] results = Inr results"
| "run_serial_loop_full self io con sched i (tc # rest) results =
     (case print_progress sched i of
        Some m \<Rightarrow> Inl (Exc (Exception m))
      | None \<Rightarrow>
          (case run_single_test_full self (io i) (con i) tc 0 of
             Inl e \<Rightarrow> Inl e
           | Inr r \<Rightarrow> run_serial_loop_full self io con sched (Suc i) rest (results @ [r])))"

text \<open>
  The collecting loop, lines 340 to 351. The \<^verbatim>\<open>try\<close> block appends the result of the
  future and then writes line 346; \<open>collect_try\<close> gives the new result list, or what was
  raised together with the result list at that moment. The handler catches class
  \<^verbatim>\<open>Exception\<close> only, writes line 349 and appends a failed result.
\<close>

definition collect_try ::
  "OpenSplatTester \<Rightarrow> (nat \<Rightarrow> trial_io) \<Rightarrow> (nat \<Rightarrow> console_io) \<Rightarrow> sched_console
     \<Rightarrow> TestCase list \<Rightarrow> int list \<Rightarrow> nat \<Rightarrow> TestResult list
     \<Rightarrow> (raised \<times> TestResult list) + TestResult list" where
  "collect_try self io con sched tcs gpus index results =
     (case run_single_test_full self (io index) (con index) (tcs ! index) (gpus ! index) of
        Inl e \<Rightarrow> Inl (e, results)
      | Inr r \<Rightarrow>
          (case print_done sched index of
             Some m \<Rightarrow> Inl (Exc (Exception m), results @ [r])
           | None \<Rightarrow> Inr (results @ [r])))"

definition fault_result :: "TestCase list \<Rightarrow> int list \<Rightarrow> nat \<Rightarrow> exn \<Rightarrow> TestResult" where
  "fault_result tcs gpus index e =
     \<lparr>test_case = tcs ! index, success = False, duration = 0, output_file = [],
      gpu_id = gpus ! index, error_msg = Some (str_exn e)\<rparr>"

fun collect_loop_full ::
  "OpenSplatTester \<Rightarrow> (nat \<Rightarrow> trial_io) \<Rightarrow> (nat \<Rightarrow> console_io) \<Rightarrow> sched_console
     \<Rightarrow> TestCase list \<Rightarrow> int list \<Rightarrow> nat list \<Rightarrow> TestResult list
     \<Rightarrow> raised + TestResult list" where
  "collect_loop_full self io con sched tcs gpus [] results = Inr results"
| "collect_loop_full self io con sched tcs gpus (index # rest) results =
     (case collect_try self io con sched tcs gpus index results of
        Inr results' \<Rightarrow> collect_loop_full self io con sched tcs gpus rest results'
      | Inl (BaseExc m, results') \<Rightarrow> Inl (BaseExc m)
      | Inl (Exc e, results') \<Rightarrow>
          (case print_fault sched index of
             Some m \<Rightarrow> Inl (Exc (Exception m))
           | None \<Rightarrow>
               collect_loop_full self io con sched tcs gpus rest
                 (results' @ [fault_result tcs gpus index e])))"

definition run_parallel_path_full ::
  "OpenSplatTester \<Rightarrow> (nat \<Rightarrow> trial_io) \<Rightarrow> (nat \<Rightarrow> console_io) \<Rightarrow> sched_console
     \<Rightarrow> nat list \<Rightarrow> TestCase list \<Rightarrow> raised + TestResult list" where
  "run_parallel_path_full self io con sched order tcs =
     (let gpus = gpu_assignments (max_workers self) (length tcs) in
      case ThreadPoolExecutor (max_workers self) of
        Inl e \<Rightarrow> Inl (Exc e)
      | Inr executor \<Rightarrow> collect_loop_full self io con sched tcs gpus order [])"

definition run_all_tests_full ::
  "OpenSplatTester \<Rightarrow> TestCase list \<Rightarrow> (nat \<Rightarrow> trial_io) \<Rightarrow> (nat \<Rightarrow> console_io)
     \<Rightarrow> sched_console \<Rightarrow> nat list \<Rightarrow> TestCase list option \<Rightarrow> raised + TestResult list" where
  "run_all_tests_full self defaults io con sched order test_cases =
     (let tcs = (case test_cases of None \<Rightarrow> defaults | Some l \<Rightarrow> l) in
      case print_header sched of
        Some m \<Rightarrow> Inl (Exc (Exception m))
      | None \<Rightarrow>
          if max_workers self \<le> 1 then run_serial_loop_full self io con sched 0 tcs []
          else run_parallel_path_full self io con sched order tcs)"

section \<open>The quick test script (quick_test.py)\<close>

text \<open>
  A result is the tuple \<^verbatim>\<open>(name, desc, success, duration, size_mb, gpu_id)\<close>.
  \<^verbatim>\<open>run_test\<close> has no handler: what \<^verbatim>\<open>subprocess.run\<close> or \<^verbatim>\<open>os.path.getsize\<close>
  raises leaves it. The module constants \<^verbatim>\<open>OUTPUT_DIR\<close> and \<^verbatim>\<open>TEST_CASES\<close> are
  arguments of the model.
\<close>

type_synonym quick_case = "string \<times> string \<times> string list \<times> int"
type_synonym quick_result = "string \<times> string \<times> bool \<times> real \<times> real \<times> int"

definition run_test ::
  "string \<Rightarrow> trial_io \<Rightarrow> string \<Rightarrow> string \<Rightarrow> string list \<Rightarrow> int \<Rightarrow> exn + quick_result" where
  "run_test OUTPUT_DIR io nm desc ps gpu =
     (let outfile = os_path_join OUTPUT_DIR (nm @ ''.ply'');
          cmd = [''./opensplat'', ''-o'', outfile] @ ps @ [''./banana''];
          env = (environ io)(''CUDA_VISIBLE_DEVICES'' \<mapsto> py_str gpu);
          start = time_start io
      in case subprocess_run io cmd env None of
           Inl e \<Rightarrow> Inl e
         | Inr result \<Rightarrow>
             (let dur = time_after_run io - start in
              if returncode result = 0
              then (case getsize io outfile of
                      Inl m \<Rightarrow> Inl (Exception m)
                    | Inr sz \<Rightarrow> Inr (nm, desc, True, dur, real sz / (1024 * 1024), gpu))
              else Inr (nm, desc, False, dur, 0, gpu)))"

definition quick_collect ::
  "string \<Rightarrow> (nat \<Rightarrow> trial_io) \<Rightarrow> quick_case list \<Rightarrow> int list \<Rightarrow> nat \<Rightarrow> quick_result" where
  "quick_collect OUTPUT_DIR io cases gpus index =
     (case cases ! index of (nm, desc, ps, _) \<Rightarrow>
        (case run_test OUTPUT_DIR (io index) nm desc ps (gpus ! index) of
           Inr r \<Rightarrow> r
         | Inl e \<Rightarrow> (nm, fst (snd (cases ! index)), False, 0, 0, gpus ! index)))"

text \<open>
  \<^verbatim>\<open>run_parallel\<close>: the list comprehension of line 74 divides by \<^verbatim>\<open>max_workers\<close>, so it
  raises \<^verbatim>\<open>ZeroDivisionError\<close> for a pool size of zero and a non-empty case list.
\<close>

definition run_parallel ::
  "string \<Rightarrow> quick_case list \<Rightarrow> (nat \<Rightarrow> trial_io) \<Rightarrow> nat list \<Rightarrow> int
     \<Rightarrow> exn + quick_result list" where
  "run_parallel OUTPUT_DIR TEST_CASES io order workers =
     (if workers = 0 \<and> TEST_CASES \<noteq> []
      then Inl (Exception ''integer division or modulo by zero'')
      else (let gpus = gpu_assignments workers (length TEST_CASES) in
            case ThreadPoolExecutor workers of
              Inl e \<Rightarrow> Inl e
            | Inr executor \<Rightarrow> Inr (map (quick_collect OUTPUT_DIR io TEST_CASES gpus) order)))"

section \<open>The result comparison script (compare_results.py)\<close>

subsection \<open>parse_ply_header\<close>

text \<open>
  \<^verbatim>\<open>f.readline()\<close> on a binary file: the bytes up to and including the next line feed,
  or all remaining bytes when there is none; at the end of the file it returns the empty
  byte string. The pair is the line and the rest of the file.
\<close>

fun readline :: "string \<Rightarrow> string \<times> string" where
  "readline [] = ([], [])"
| "readline (c # cs) =
     (if c = CHR 0x0A then ([c], cs)
      else (case readline cs of (l, r) \<Rightarrow> (c # l, r)))"

text \<open>
  The \<^verbatim>\<open>while True\<close> loop of lines 31 to 37. It may run forever, so its result is an
  option: \<open>None\<close> means that the loop never leaves.
\<close>

partial_function (option) read_header :: "string \<Rightarrow> string \<Rightarrow> string option" where
  "read_header f header =
     (case readline f of (line, f') \<Rightarrow>
        (let header' = header @ line in
         if sublist ''end_header'' line then Some header'
         else if length header' > 10000 then Some header'
         else read_header f' header'))"

text \<open>\<^verbatim>\<open>header.decode('ascii', errors='ignore')\<close> drops every byte above 127.\<close>

definition decode_ascii_ignore :: "string \<Rightarrow> string" where
  "decode_ascii_ignore bs = filter (\<lambda>c. (of_char c :: nat) < 128) bs"

text \<open>
  \<^verbatim>\<open>int(s)\<close> on a string without surrounding whitespace: an optional sign, then decimal
  digits, single underscores allowed between digits. \<open>None\<close> is \<^verbatim>\<open>ValueError\<close>.
\<close>

definition is_digit :: "char \<Rightarrow> bool" where
  "is_digit c = (c \<in> set ''0123456789'')"

definition digit_val :: "char \<Rightarrow> nat" where
  "digit_val c = of_char c - 48"

fun digits_value :: "nat \<Rightarrow> string \<Rightarrow> nat option" where
  "digits_value acc [] = Some acc"
| "digits_value acc [c] = (if is_digit c then Some (10 * acc + digit_val c) else None)"
| "digits_value acc (c # d # ds) =
     (if is_digit c then digits_value (10 * acc + digit_val c) (d # ds)
      else if c = CHR ''_'' \<and> is_digit d then digits_value (10 * acc + digit_val d) ds
      else None)"

definition py_int_unsigned :: "string \<Rightarrow> nat option" where
  "py_int_unsigned s =
     (case s of [] \<Rightarrow> None
      | c # cs \<Rightarrow> if is_digit c then digits_value (digit_val c) cs else None)"

definition py_int :: "string \<Rightarrow> int option" where
  "py_int s =
     (case s of [] \<Rightarrow> None
      | c # cs \<Rightarrow>
          if c = CHR ''-'' then map_option (\<lambda>n. - int n) (py_int_unsigned cs)
          else if c = CHR ''+'' then map_option int (py_int_unsigned cs)
          else map_option int (py_int_unsigned s))"

text \<open>
  The \<^verbatim>\<open>for\<close> loop of lines 41 to 44: the first line that starts with
  \<^verbatim>\<open>element vertex\<close> decides; \<^verbatim>\<open>parts[2]\<close> may raise \<^verbatim>\<open>IndexError\<close> and \<^verbatim>\<open>int\<close> may
  raise \<^verbatim>\<open>ValueError\<close>. \<open>Inr None\<close> is the loop ending without a \<^verbatim>\<open>return\<close>.
\<close>

fun scan_lines :: "string list \<Rightarrow> exn + int option" where
  "scan_lines [] = Inr None"
| "scan_lines (line # rest) =
     (if prefix ''element vertex'' line
      then (let parts = py_split line in
            if length parts \<le> 2 then Inl (Exception ''list index out of range'')
            else (case py_int (parts ! 2) of
                    None \<Rightarrow> Inl (Exception ''invalid literal for int() with base 10'')
                  | Some n \<Rightarrow> Inr (Some n)))
      else scan_lines rest)"

text \<open>
  The function: \<open>fs\<close> maps a path to the bytes of the file, \<open>None\<close> when \<^verbatim>\<open>open\<close>
  raises. Every exception of the \<^verbatim>\<open>try\<close> block ends in \<^verbatim>\<open>return 0\<close>. The result
  \<open>None\<close> means that the call does not return.
\<close>

definition parse_ply_header_try :: "(string \<rightharpoonup> string) \<Rightarrow> string \<Rightarrow> (exn + int option) option" where
  "parse_ply_header_try fs file_path =
     (case fs file_path of
        None \<Rightarrow> Some (Inl (Exception ''No such file or directory''))
      | Some content \<Rightarrow>
          map_option (\<lambda>header. scan_lines (split_on (CHR 0x0A) (decode_ascii_ignore header)))
                     (read_header content []))"

definition parse_ply_header :: "(string \<rightharpoonup> string) \<Rightarrow> string \<Rightarrow> int option" where
  "parse_ply_header fs file_path =
     map_option (\<lambda>r. case r of Inr (Some n) \<Rightarrow> n | Inr None \<Rightarrow> 0 | Inl e \<Rightarrow> 0)
                (parse_ply_header_try fs file_path)"

subsection \<open>The grouping of print_comparison\<close>

text \<open>
  The grouping works on object identities (\<^verbatim>\<open>id(m)\<close>), so the list \<^verbatim>\<open>models\<close> is a list of
  references and \<open>heap\<close> gives the object behind a reference. The dictionary
  \<^verbatim>\<open>groups\<close> keeps insertion order: an association list. Its nine keys are display
  titles; they are named here by what they stand for, in the order of the source.
\<close>

record ModelInfo =
  name :: string
  file_path :: string
  size_mb :: real
  num_points :: int

datatype group_key =
  Iterations | Resolution | SphericalHarmonics | SsimWeight | RefineEvery
  | GradThreshold | SizeThreshold | Combined | Other

definition initial_groups :: "(nat \<Rightarrow> ModelInfo) \<Rightarrow> nat list \<Rightarrow> (group_key \<times> nat list) list" where
  "initial_groups heap models =
     [(Iterations, [m \<leftarrow> models. sublist ''iters_'' (ModelInfo.name (heap m))]),
      (Resolution, [m \<leftarrow> models. sublist ''scale_'' (ModelInfo.name (heap m))]),
      (SphericalHarmonics, [m \<leftarrow> models. sublist ''sh_'' (ModelInfo.name (heap m))]),
      (SsimWeight, [m \<leftarrow> models. sublist ''ssim_'' (ModelInfo.name (heap m))]),
      (RefineEvery, [m \<leftarrow> models. sublist ''refine_'' (ModelInfo.name (heap m))]),
      (GradThreshold, [m \<leftarrow> models. sublist ''grad_'' (ModelInfo.name (heap m))]),
      (SizeThreshold, [m \<leftarrow> models. sublist ''size_'' (ModelInfo.name (heap m))]),
      (Combined, [m \<leftarrow> models.
                    ModelInfo.name (heap m) \<in> set [''baseline'', ''fast_preview'', ''quality'']]),
      (Other, [])]"

definition assigned_ids :: "(group_key \<times> nat list) list \<Rightarrow> nat set" where
  "assigned_ids groups = fold (\<lambda>g acc. acc \<union> set g) (map snd groups) {}"

fun dict_set :: "'k \<Rightarrow> 'v \<Rightarrow> ('k \<times> 'v) list \<Rightarrow> ('k \<times> 'v) list" where
  "dict_set k v [] = [(k, v)]"
| "dict_set k v ((k', v') # rest) =
     (if k' = k then (k, v) # rest else (k', v') # dict_set k v rest)"

definition comparison_groups :: "(nat \<Rightarrow> ModelInfo) \<Rightarrow> nat list \<Rightarrow> (group_key \<times> nat list) list" where
  "comparison_groups heap models =
     (let groups = initial_groups heap models;
          assigned = assigned_ids groups
      in dict_set Other [m \<leftarrow> models. m \<notin> assigned] groups)"

section \<open>Example inputs\<close>

text \<open>
  A tester with the default paths and a given pool size, a test case with a given name, a
  world in which \<^verbatim>\<open>subprocess.run\<close> and \<^verbatim>\<open>os.path.getsize\<close> always behave the same way,
  and a subprocess that exits with a given status and standard-error text.
\<close>

definition ex_tester :: "int \<Rightarrow> OpenSplatTester" where
  "ex_tester w = \<lparr>opensplat_path = ''./opensplat'', data_path = ''./banana'',
                  output_dir = ''./output'', max_workers = w, timeout = 3600\<rparr>"

definition ex_case :: "string \<Rightarrow> TestCase" where
  "ex_case n = \<lparr>TestCase.name = n, description = ''example'', params = [(''num-iters'', ''1000'')]\<rparr>"

definition ex_io :: "(exn + CompletedProcess) \<Rightarrow> (string + nat) \<Rightarrow> trial_io" where
  "ex_io outcome sz =
     \<lparr>environ = Map.empty, subprocess_run = (\<lambda>cmd env t. outcome), getsize = (\<lambda>p. sz),
      time_start = 10, time_after_run = 12, time_in_handler = 13\<rparr>"

definition ex_exit :: "int \<Rightarrow> string \<Rightarrow> exn + CompletedProcess" where
  "ex_exit rc err = Inr \<lparr>returncode = rc, stdout = [], stderr = err\<rparr>"

text \<open>
  A console with an encoding that has no code for the three symbols opening the outcome
  lines 117, 121, 126 and 130 (the encoding \<^verbatim>\<open>gbk\<close> is one; it does have the other
  characters of the script): writing any of these lines raises \<^verbatim>\<open>UnicodeEncodeError\<close>.
\<close>

definition ex_console_no_emoji :: console_io where
  "ex_console_no_emoji =
     \<lparr>print_start = None,
      print_success = Some ''codec cannot encode character U+2705'',
      print_failure = Some ''codec cannot encode character U+274C'',
      print_timeout = Some ''codec cannot encode character U+23F1'',
      print_exception = Some ''codec cannot encode character U+274C'',
      interrupt = None\<rparr>"

text \<open>
  A world whose subprocess succeeds only on device 0, a family of worlds in which the trial
  at index 1 fails to launch, and three of the cases of the quick test script.
\<close>

definition ex_io_device :: trial_io where
  "ex_io_device =
     \<lparr>environ = Map.empty,
      subprocess_run = (\<lambda>cmd env t.
         if env ''CUDA_VISIBLE_DEVICES'' = Some ''0'' then ex_exit 0 []
         else ex_exit 1 ''no CUDA-capable device is detected''),
      getsize = (\<lambda>p. Inr 1048576),
      time_start = 10, time_after_run = 12, time_in_handler = 13\<rparr>"

definition ex_io_by_index :: "nat \<Rightarrow> trial_io" where
  "ex_io_by_index i =
     (if i = 1 then ex_io (Inl (Exception ''Permission denied'')) (Inl ''missing'')
      else ex_io (ex_exit 0 []) (Inr 1048576))"

definition ex_quick_cases :: "quick_case list" where
  "ex_quick_cases =
     [(''baseline'', ''default parameters'', [], 0),
      (''fast'', ''quick preview'', [''--downscale-factor'', ''4'', ''--num-iters'', ''5000''], 0),
      (''sh1'', ''simple lighting'', [''--sh-degree'', ''1'', ''--num-iters'', ''10000''], 0)]"

text \<open>Three analysed models: one matching two rules, one named in the last rule, one matching none.\<close>

definition ex_heap :: "nat \<Rightarrow> ModelInfo" where
  "ex_heap m =
     (if m = 0 then \<lparr>ModelInfo.name = ''scale_2_sh_1'', file_path = ''./output/scale_2_sh_1.ply'',
                      size_mb = 12, num_points = 50000\<rparr>
      else if m = 1 then \<lparr>ModelInfo.name = ''baseline'', file_path = ''./output/baseline.ply'',
                      size_mb = 10, num_points = 40000\<rparr>
      else \<lparr>ModelInfo.name = ''misc'', file_path = ''./output/misc.ply'',
             size_mb = 1, num_points = 0\<rparr>)"




section \<open>Properties of run_single_test\<close>

lemma run_single_test_Inr:
  "\<exists>r. run_single_test self io tc gpu = Inr r"
  by (auto simp: run_single_test_def run_single_test_try_def Let_def
           split: sum.splits exn.splits)

text \<open>
  With a console that takes every write and no exception outside class \<^verbatim>\<open>Exception\<close>,
  the method with the fallible console is the method above.
\<close>

lemma run_single_test_full_quiet:
  "run_single_test_full self io quiet_console tc gpu
     = map_sum Exc id (run_single_test self io tc gpu)"
  by (auto simp: run_single_test_full_def run_single_test_try_full_def run_single_test_def
        run_single_test_try_def quiet_console_def Let_def
        split: sum.splits exn.splits raised.splits)

lemma run_single_test_full_quiet_Inr:
  "run_single_test_full self io quiet_console tc gpu
     = Inr (projr (run_single_test self io tc gpu))"
  using run_single_test_Inr [of self io tc gpu]
  by (auto simp: run_single_test_full_quiet)

lemma run_single_test_full_fields:
  "run_single_test_full self io con tc gpu = Inr r \<Longrightarrow> test_case r = tc \<and> gpu_id r = gpu"
  by (auto simp: run_single_test_full_def run_single_test_try_full_def Let_def
           split: sum.splits exn.splits raised.splits option.splits if_splits)

lemma run_single_test_full_no_interrupt:
  "interrupt con = None \<Longrightarrow> run_single_test_full self io con tc gpu \<noteq> Inl (BaseExc m)"
  by (auto simp: run_single_test_full_def run_single_test_try_full_def Let_def
           split: sum.splits exn.splits raised.splits option.splits if_splits)

text \<open>
  Claim C2 as stated fails: \<^verbatim>\<open>run_single_test\<close> does propagate an exception to its
  caller. On a console that cannot encode the symbols of the outcome lines, a subprocess
  that exits with status zero and leaves its file makes the write of line 117 raise inside
  the \<^verbatim>\<open>try\<close> block; the general handler catches that, and its own write of line 130
  raises in turn, inside the handler, where nothing catches it.
\<close>

theorem console_failure_leaves_run_single_test_counterexample:
  "run_single_test_full (ex_tester 1) (ex_io (ex_exit 0 []) (Inr 1048576))
     ex_console_no_emoji (ex_case ''baseline'') 0
   = Inl (Exc (Exception ''codec cannot encode character U+274C''))"
  by (simp add: run_single_test_full_def run_single_test_try_full_def ex_console_no_emoji_def
        ex_io_def ex_exit_def)

text \<open>
  The same happens in the timeout handler, and an exception outside class \<^verbatim>\<open>Exception\<close>
  passes both handlers.
\<close>

lemma handler_write_failure_leaves_run_single_test:
  assumes "print_start con = None" and "interrupt con = None"
    and "subprocess_run io (build_cmd self tc) (build_env io gpu) (Some (timeout self))
           = Inl (TimeoutExpired m)"
    and "print_timeout con = Some m'"
  shows "run_single_test_full self io con tc gpu = Inl (Exc (Exception m'))"
  using assms
  by (simp add: run_single_test_full_def run_single_test_try_full_def)

lemma interrupt_leaves_run_single_test:
  assumes "print_start con = None" and "interrupt con = Some m"
  shows "run_single_test_full self io con tc gpu = Inl (BaseExc m)"
  using assms
  by (simp add: run_single_test_full_def run_single_test_try_full_def)

text \<open>
  Claim C2, amended. For every tester configuration, world, test case and device slot,
  when the console takes the writes made outside the \<^verbatim>\<open>try\<close> block (the start lines 96
  to 100 and the lines 126 and 130 of the two handlers) and no exception outside class
  \<^verbatim>\<open>Exception\<close> arrives, \<^verbatim>\<open>run_single_test\<close> returns a result and raises nothing. When
  \<^verbatim>\<open>subprocess.run\<close> raises \<^verbatim>\<open>TimeoutExpired\<close> the result is a failure whose error
  text is exactly \<^verbatim>\<open>Timeout\<close>; when it raises any other exception (the launch failed)
  the result is a failure whose error text is the message of the exception; and an
  exception raised inside the \<^verbatim>\<open>try\<close> block after the subprocess has returned (the size
  of the file cannot be read, the outcome line cannot be written) gives a failure as well.
\<close>

theorem run_single_test_returns_when_console_writes:
  assumes "print_start con = None" and "print_timeout con = None"
    and "print_exception con = None" and "interrupt con = None"
  shows "\<exists>r. run_single_test_full self io con tc gpu = Inr r
     \<and> ((\<exists>m. subprocess_run io (build_cmd self tc) (build_env io gpu) (Some (timeout self))
               = Inl (TimeoutExpired m))
          \<longrightarrow> \<not> success r \<and> error_msg r = Some ''Timeout'')
     \<and> (\<forall>m. subprocess_run io (build_cmd self tc) (build_env io gpu) (Some (timeout self))
               = Inl (Exception m)
          \<longrightarrow> \<not> success r \<and> error_msg r = Some m)
     \<and> (\<forall>res m. subprocess_run io (build_cmd self tc) (build_env io gpu) (Some (timeout self))
                 = Inr res
               \<and> returncode res = 0
               \<and> (getsize io (derived_output_file self tc) = Inl m \<or> print_success con = Some m)
          \<longrightarrow> \<not> success r)
     \<and> (\<forall>res m. subprocess_run io (build_cmd self tc) (build_env io gpu) (Some (timeout self))
                 = Inr res
               \<and> returncode res \<noteq> 0 \<and> print_failure con = Some m
          \<longrightarrow> \<not> success r \<and> error_msg r = Some m)"
  using assms
  by (auto simp: run_single_test_full_def run_single_test_try_full_def Let_def
           split: sum.splits exn.splits raised.splits option.splits)

theorem run_single_test_returns_when_console_writes_witness:
  "(print_start quiet_console = None \<and> print_timeout quiet_console = None
      \<and> print_exception quiet_console = None \<and> interrupt quiet_console = None)
   \<and> (\<exists>r. run_single_test_full (ex_tester 1)
               (ex_io (Inl (TimeoutExpired ''timed out after 3600 seconds'')) (Inl ''missing''))
               quiet_console (ex_case ''baseline'') 0 = Inr r
          \<and> \<not> success r \<and> error_msg r = Some ''Timeout'')
   \<and> (\<exists>r. run_single_test_full (ex_tester 1)
               (ex_io (Inl (Exception ''Permission denied'')) (Inl ''missing''))
               quiet_console (ex_case ''baseline'') 0 = Inr r
          \<and> \<not> success r \<and> error_msg r = Some ''Permission denied'')"
proof -
  have q: "print_start quiet_console = None" "print_timeout quiet_console = None"
    "print_exception quiet_console = None" "interrupt quiet_console = None"
    by (simp_all add: quiet_console_def)
  have a: "\<exists>r. run_single_test_full (ex_tester 1)
               (ex_io (Inl (TimeoutExpired ''timed out after 3600 seconds'')) (Inl ''missing''))
               quiet_console (ex_case ''baseline'') 0 = Inr r
          \<and> \<not> success r \<and> error_msg r = Some ''Timeout''"
    using run_single_test_returns_when_console_writes
            [OF q, of "ex_tester 1"
               "ex_io (Inl (TimeoutExpired ''timed out after 3600 seconds'')) (Inl ''missing'')"
               "ex_case ''baseline''" 0]
    by (simp add: ex_io_def)
  have b: "\<exists>r. run_single_test_full (ex_tester 1)
               (ex_io (Inl (Exception ''Permission denied'')) (Inl ''missing''))
               quiet_console (ex_case ''baseline'') 0 = Inr r
          \<and> \<not> success r \<and> error_msg r = Some ''Permission denied''"
    using run_single_test_returns_when_console_writes
            [OF q, of "ex_tester 1"
               "ex_io (Inl (Exception ''Permission denied'')) (Inl ''missing'')"
               "ex_case ''baseline''" 0]
    by (simp add: ex_io_def)
  show ?thesis using q a b by blast
qed







text \<open>
  Claim C10. Every call of \<^verbatim>\<open>run_single_test\<close> returns a result that records the test case,
  the derived output path (the output directory joined with the name and \<^verbatim>\<open>.ply\<close>) and the
  device slot it was called with, whichever branch produced the result; for an output
  directory that is not empty and does not end in a slash, and a name that does not start
  with one, the path is the directory, a slash, the name and \<^verbatim>\<open>.ply\<close>.
\<close>

theorem run_single_test_records_path_and_slot:
  "\<exists>r. run_single_test self io tc gpu = Inr r
       \<and> test_case r = tc
       \<and> output_file r = os_path_join (output_dir self) (TestCase.name tc @ ''.ply'')
       \<and> gpu_id r = gpu
       \<and> (output_dir self \<noteq> [] \<and> last (output_dir self) \<noteq> CHR ''/''
              \<and> \<not> prefix ''/'' (TestCase.name tc)
            \<longrightarrow> output_file r = output_dir self @ ''/'' @ TestCase.name tc @ ''.ply'')"
  by (cases "TestCase.name tc")
     (auto simp: run_single_test_def run_single_test_try_def Let_def derived_output_file_def
        os_path_join_def split: sum.splits exn.splits)

theorem run_single_test_records_path_and_slot_witness:
  "\<exists>r. run_single_test (ex_tester 4) (ex_io (Inl (TimeoutExpired ''timed out'')) (Inl ''missing''))
          (ex_case ''scale_2'') 3 = Inr r
       \<and> output_file r = ''./output/scale_2.ply'' \<and> gpu_id r = 3"
  using run_single_test_records_path_and_slot
          [of "ex_tester 4" "ex_io (Inl (TimeoutExpired ''timed out'')) (Inl ''missing'')"
              "ex_case ''scale_2''" 3]
  by (auto simp: ex_tester_def ex_case_def)


section \<open>Properties of run_all_tests\<close>

lemma run_single_test_fields:
  "run_single_test self io tc gpu = Inr r \<Longrightarrow> test_case r = tc \<and> gpu_id r = gpu"
  by (auto simp: run_single_test_def run_single_test_try_def Let_def
           split: sum.splits exn.splits if_splits)

lemma run_single_test_raise_fails:
  "subprocess_run io (build_cmd self tc) (build_env io gpu) (Some (timeout self)) = Inl e
     \<Longrightarrow> run_single_test self io tc gpu = Inr r \<Longrightarrow> \<not> success r"
  by (auto simp: run_single_test_def run_single_test_try_def Let_def
           split: sum.splits exn.splits if_splits)

lemma Inr_projr_run_single_test:
  "Inr (projr (run_single_test self io tc gpu)) = run_single_test self io tc gpu"
  using run_single_test_Inr [of self io tc gpu] by auto

lemma run_serial_loop_eq:
  "run_serial_loop self io i tcs acc
     = Inr (acc @ map (\<lambda>k. projr (run_single_test self (io (i + k)) (tcs ! k) 0))
                      [0..<length tcs])"
proof (induction tcs arbitrary: i acc)
  case Nil
  then show ?case by simp
next
  case (Cons tc rest)
  obtain r where r: "run_single_test self (io i) tc 0 = Inr r"
    using run_single_test_Inr by blast
  show ?case
    by (simp add: r Cons.IH map_upt_Suc del: upt_Suc)
qed

lemma gpu_assignments_nth:
  "i < n \<Longrightarrow> gpu_assignments w n ! i = int i mod w"
  by (simp add: gpu_assignments_def)

lemma collect_future_eq:
  "Inr (collect_future self io tcs gpus i) = run_single_test self (io i) (tcs ! i) (gpus ! i)"
  using run_single_test_Inr [of self "io i" "tcs ! i" "gpus ! i"]
  by (auto simp: collect_future_def)

lemma collect_future_projr:
  "collect_future self io tcs gpus i = projr (run_single_test self (io i) (tcs ! i) (gpus ! i))"
  using collect_future_eq [of self io tcs gpus i, symmetric] by simp

lemma run_all_tests_serial:
  "max_workers self \<le> 1 \<Longrightarrow>
   run_all_tests self defaults io order (Some tcs)
     = Inr (map (\<lambda>i. projr (run_single_test self (io i) (tcs ! i) 0)) [0..<length tcs])"
  by (simp add: run_all_tests_def run_serial_loop_eq)

lemma run_all_tests_parallel:
  "1 < max_workers self \<Longrightarrow>
   run_all_tests self defaults io order (Some tcs)
     = Inr (map (collect_future self io tcs (gpu_assignments (max_workers self) (length tcs)))
                order)"
  by (simp add: run_all_tests_def run_parallel_path_def ThreadPoolExecutor_def)

lemma order_indices:
  assumes "mset order = mset [0..<n]" and "i \<in> set order"
  shows "i < n"
proof -
  have "set order = set [0..<n]"
    using assms(1) by (rule mset_eq_setD)
  with assms(2) show ?thesis by simp
qed

lemma run_all_tests_results:
  assumes "1 \<le> max_workers self" and "mset order = mset [0..<length tcs]"
  shows "\<exists>rs. run_all_tests self defaults io order (Some tcs) = Inr rs
           \<and> map Inr rs
               = map (\<lambda>i. run_single_test self (io i) (tcs ! i) (int i mod max_workers self))
                     (if max_workers self = 1 then [0..<length tcs] else order)"
proof (cases "max_workers self = 1")
  case True
  then show ?thesis
    by (simp add: run_all_tests_serial Inr_projr_run_single_test comp_def)
next
  case False
  with assms(1) have par: "1 < max_workers self" by simp
  have "map Inr (map (collect_future self io tcs
                        (gpu_assignments (max_workers self) (length tcs))) order)
          = map (\<lambda>i. run_single_test self (io i) (tcs ! i) (int i mod max_workers self)) order"
    using order_indices [OF assms(2)]
    by (simp add: collect_future_eq gpu_assignments_nth)
  with par False show ?thesis
    by (simp add: run_all_tests_parallel)
qed

lemma completion_order_mset:
  assumes "mset order = mset [0..<n]"
  shows "mset (map f order) = mset (map f [0..<n])"
proof -
  have "image_mset f (mset order) = image_mset f (mset [0..<n])"
    by (simp only: assms)
  then show ?thesis by simp
qed

text \<open>
  With consoles that take every write, the two loops with the fallible console are the
  loops above.
\<close>

lemma run_serial_loop_full_quiet:
  "\<forall>k<length tcs. con (i + k) = quiet_console \<and> print_progress sched (i + k) = None \<Longrightarrow>
   run_serial_loop_full self io con sched i tcs acc
     = Inr (acc @ map (\<lambda>k. projr (run_single_test self (io (i + k)) (tcs ! k) 0))
                      [0..<length tcs])"
proof (induction tcs arbitrary: i acc)
  case Nil
  then show ?case by simp
next
  case (Cons tc rest)
  have here: "con i = quiet_console" "print_progress sched i = None"
    using Cons.prems by auto
  have later: "\<forall>k<length rest. con (Suc i + k) = quiet_console
                               \<and> print_progress sched (Suc i + k) = None"
    using Cons.prems by auto
  show ?case
    by (simp add: here run_single_test_full_quiet_Inr Cons.IH [OF later] map_upt_Suc
             del: upt_Suc)
qed

lemma collect_loop_full_quiet:
  "\<forall>i\<in>set order. con i = quiet_console \<and> print_done sched i = None \<Longrightarrow>
   collect_loop_full self io con sched tcs gpus order acc
     = Inr (acc @ map (collect_future self io tcs gpus) order)"
proof (induction order arbitrary: acc)
  case Nil
  then show ?case by simp
next
  case (Cons index rest)
  have here: "con index = quiet_console" "print_done sched index = None"
    using Cons.prems by auto
  have later: "\<forall>i\<in>set rest. con i = quiet_console \<and> print_done sched i = None"
    using Cons.prems by auto
  have "collect_try self io con sched tcs gpus index acc
          = Inr (acc @ [collect_future self io tcs gpus index])"
    by (simp add: collect_try_def here run_single_test_full_quiet_Inr collect_future_projr)
  then show ?case
    by (simp add: Cons.IH [OF later])
qed

lemma run_parallel_path_full_quiet:
  assumes "\<forall>i\<in>set order. con i = quiet_console \<and> print_done sched i = None"
  shows "run_parallel_path_full self io con sched order tcs
           = map_sum Exc id (run_parallel_path self io order tcs)"
  by (cases "ThreadPoolExecutor (max_workers self)")
     (simp_all add: run_parallel_path_full_def run_parallel_path_def
        collect_loop_full_quiet [OF assms])

lemma run_all_tests_full_quiet:
  assumes "print_header sched = None"
    and "\<forall>i<length tcs. con i = quiet_console \<and> print_progress sched i = None
                         \<and> print_done sched i = None"
    and "mset order = mset [0..<length tcs]"
  shows "run_all_tests_full self defaults io con sched order (Some tcs)
           = map_sum Exc id (run_all_tests self defaults io order (Some tcs))"
proof (cases "max_workers self \<le> 1")
  case True
  have "\<forall>k<length tcs. con (0 + k) = quiet_console \<and> print_progress sched (0 + k) = None"
    using assms(2) by simp
  then have "run_serial_loop_full self io con sched 0 tcs []
               = map_sum Exc id (run_serial_loop self io 0 tcs [])"
    by (simp add: run_serial_loop_full_quiet run_serial_loop_eq)
  then show ?thesis
    using True assms(1) by (simp add: run_all_tests_full_def run_all_tests_def)
next
  case False
  have "\<forall>i\<in>set order. con i = quiet_console \<and> print_done sched i = None"
    using assms(2) order_indices [OF assms(3)] by blast
  then have "run_parallel_path_full self io con sched order tcs
               = map_sum Exc id (run_parallel_path self io order tcs)"
    by (rule run_parallel_path_full_quiet)
  then show ?thesis
    using False assms(1) by (simp add: run_all_tests_full_def run_all_tests_def)
qed

text \<open>
  The collecting loop of the parallel branch converts every exception of class
  \<^verbatim>\<open>Exception\<close> that leaves a \<^verbatim>\<open>run_single_test\<close> call into a failed result of that
  trial, so with a pool size above one and a console that takes the lines 346 and 349 the
  run returns one result per collected future. The serial loop has no such handler: what
  leaves the first call leaves \<^verbatim>\<open>run_all_tests\<close>.
\<close>

lemma collect_loop_full_converts:
  assumes "\<forall>i\<in>set order. print_done sched i = None \<and> print_fault sched i = None
                          \<and> interrupt (con i) = None"
  shows "\<exists>rs. collect_loop_full self io con sched tcs gpus order acc = Inr (acc @ rs)
           \<and> map test_case rs = map (\<lambda>i. tcs ! i) order
           \<and> map gpu_id rs = map (\<lambda>i. gpus ! i) order"
  using assms
proof (induction order arbitrary: acc)
  case Nil
  then show ?case by simp
next
  case (Cons index rest)
  have here: "print_done sched index = None" "print_fault sched index = None"
    "interrupt (con index) = None"
    using Cons.prems by auto
  have later: "\<forall>i\<in>set rest. print_done sched i = None \<and> print_fault sched i = None
                             \<and> interrupt (con i) = None"
    using Cons.prems by auto
  obtain x where step:
    "collect_loop_full self io con sched tcs gpus (index # rest) acc
       = collect_loop_full self io con sched tcs gpus rest (acc @ [x])"
    and x: "test_case x = tcs ! index" "gpu_id x = gpus ! index"
  proof (cases "run_single_test_full self (io index) (con index) (tcs ! index) (gpus ! index)")
    case (Inr r)
    then have "collect_loop_full self io con sched tcs gpus (index # rest) acc
                 = collect_loop_full self io con sched tcs gpus rest (acc @ [r])"
      by (simp add: collect_try_def here)
    moreover have "test_case r = tcs ! index \<and> gpu_id r = gpus ! index"
      using Inr by (rule run_single_test_full_fields)
    ultimately show ?thesis using that by blast
  next
    case (Inl e)
    then obtain e' where e: "e = Exc e'"
      using run_single_test_full_no_interrupt [OF here(3)] by (cases e) auto
    then have "collect_loop_full self io con sched tcs gpus (index # rest) acc
                 = collect_loop_full self io con sched tcs gpus rest
                     (acc @ [fault_result tcs gpus index e'])"
      using Inl by (simp add: collect_try_def here)
    moreover have "test_case (fault_result tcs gpus index e') = tcs ! index
                     \<and> gpu_id (fault_result tcs gpus index e') = gpus ! index"
      by (simp add: fault_result_def)
    ultimately show ?thesis using that by blast
  qed
  obtain rs where rs:
    "collect_loop_full self io con sched tcs gpus rest (acc @ [x]) = Inr ((acc @ [x]) @ rs)"
    "map test_case rs = map (\<lambda>i. tcs ! i) rest" "map gpu_id rs = map (\<lambda>i. gpus ! i) rest"
    using Cons.IH [OF later] by blast
  have "collect_loop_full self io con sched tcs gpus (index # rest) acc = Inr (acc @ (x # rs))
          \<and> map test_case (x # rs) = map (\<lambda>i. tcs ! i) (index # rest)
          \<and> map gpu_id (x # rs) = map (\<lambda>i. gpus ! i) (index # rest)"
    using step rs x by simp
  then show ?case by blast
qed

lemma pool_converts_executor_exceptions:
  assumes "1 < max_workers self" and "print_header sched = None"
    and "\<forall>i\<in>set order. print_done sched i = None \<and> print_fault sched i = None
                          \<and> interrupt (con i) = None"
  shows "\<exists>rs. run_all_tests_full self defaults io con sched order (Some tcs) = Inr rs
           \<and> length rs = length order
           \<and> map test_case rs = map (\<lambda>i. tcs ! i) order"
proof -
  obtain rs where
    "collect_loop_full self io con sched tcs
       (gpu_assignments (max_workers self) (length tcs)) order [] = Inr ([] @ rs)"
    "map test_case rs = map (\<lambda>i. tcs ! i) order"
    using collect_loop_full_converts [OF assms(3)] by blast
  moreover from this have "length rs = length order"
    by (metis length_map)
  ultimately show ?thesis
    using assms(1,2)
    by (simp add: run_all_tests_full_def run_parallel_path_full_def ThreadPoolExecutor_def)
qed

lemma serial_run_aborts_on_first_exception:
  assumes "max_workers self \<le> 1" and "print_header sched = None"
    and "print_progress sched 0 = None"
    and "run_single_test_full self (io 0) (con 0) tc 0 = Inl e"
  shows "run_all_tests_full self defaults io con sched order (Some (tc # rest)) = Inl e"
  using assms by (simp add: run_all_tests_full_def)

text \<open>
  Claim C1 does not hold of the serial branch. The claim asks, for every pool size of at
  least one, for one result per submitted test case, an exception of a single trial being
  turned into a failed result of that trial without aborting the run. With a pool size of
  one, two test cases whose subprocess exits with status zero, and a console that cannot
  encode the symbols of the outcome lines, the first \<^verbatim>\<open>run_single_test\<close> call raises from
  its handler, and \<^verbatim>\<open>run_all_tests\<close> raises that exception and returns no result at all.
  With a pool size of two the same trials in the same world give two failed results, one
  per test case, each carrying the message of its exception: the handler of lines 347 to
  351 does there what the serial loop of lines 322 to 325 lacks.
\<close>

theorem serial_run_aborts_where_pool_converts:
  "run_all_tests_full (ex_tester 1) [] (\<lambda>i. ex_io (ex_exit 0 []) (Inr 1048576))
     (\<lambda>i. ex_console_no_emoji) quiet_sched [0, 1] (Some [ex_case ''a'', ex_case ''b''])
   = Inl (Exc (Exception ''codec cannot encode character U+274C''))
   \<and> run_all_tests_full (ex_tester 2) [] (\<lambda>i. ex_io (ex_exit 0 []) (Inr 1048576))
     (\<lambda>i. ex_console_no_emoji) quiet_sched [0, 1] (Some [ex_case ''a'', ex_case ''b''])
   = Inr [\<lparr>test_case = ex_case ''a'', success = False, duration = 0, output_file = [],
           gpu_id = 0, error_msg = Some ''codec cannot encode character U+274C''\<rparr>,
          \<lparr>test_case = ex_case ''b'', success = False, duration = 0, output_file = [],
           gpu_id = 1, error_msg = Some ''codec cannot encode character U+274C''\<rparr>]"
proof -
  have one: "run_single_test_full self (ex_io (ex_exit 0 []) (Inr 1048576))
               ex_console_no_emoji tc gpu
             = Inl (Exc (Exception ''codec cannot encode character U+274C''))" for self tc gpu
    by (simp add: run_single_test_full_def run_single_test_try_full_def
          ex_console_no_emoji_def ex_io_def ex_exit_def)
  show ?thesis
    by (simp add: run_all_tests_full_def run_parallel_path_full_def ThreadPoolExecutor_def
          collect_try_def fault_result_def gpu_assignments_def one quiet_sched_def
          ex_tester_def upt_rec)
qed

lemma run_test_fields:
  "run_test dir io nm desc ps gpu = Inr r \<Longrightarrow> fst r = nm \<and> snd (snd (snd (snd (snd r)))) = gpu"
  by (auto simp: run_test_def Let_def split: sum.splits if_splits)

lemma quick_collect_fields:
  "(case quick_collect dir io cases gpus i of (nm, desc, ok, dur, sz, gpu) \<Rightarrow> (nm, gpu))
     = (fst (cases ! i), gpus ! i)"
  by (cases "cases ! i")
     (auto simp: quick_collect_def split: sum.splits dest: run_test_fields)

lemma run_parallel_eq:
  "1 \<le> w \<Longrightarrow>
   run_parallel dir cases io order w
     = Inr (map (quick_collect dir io cases (gpu_assignments w (length cases))) order)"
  by (simp add: run_parallel_def ThreadPoolExecutor_def)

text \<open>
  Claim C3. For a pool size \<open>W\<close> of at least one, the slot of the trial at input index \<open>i\<close> is
  \<open>i mod W\<close>: this is the entry of \<^verbatim>\<open>gpu_assignments\<close>, computed from the index and the pool
  size alone, and it is the slot recorded in the result of that trial by \<^verbatim>\<open>run_all_tests\<close>
  and by \<^verbatim>\<open>run_parallel\<close> of the quick test script, at whatever position of the completion
  order the trial finishes.
\<close>

theorem device_slot_is_index_mod_pool_size:
  assumes "1 \<le> w" and "max_workers self = w"
    and "mset order = mset [0..<length tcs]"
    and "mset qorder = mset [0..<length TEST_CASES]"
  shows "(\<forall>i<length tcs. gpu_assignments w (length tcs) ! i = int i mod w)
       \<and> (\<exists>rs. run_all_tests self defaults io order (Some tcs) = Inr rs
              \<and> map (\<lambda>r. (test_case r, gpu_id r)) rs
                  = map (\<lambda>i. (tcs ! i, int i mod w))
                        (if w = 1 then [0..<length tcs] else order))
       \<and> (\<exists>qs. run_parallel OUTPUT_DIR TEST_CASES qio qorder w = Inr qs
              \<and> map (\<lambda>(nm, desc, ok, dur, sz, gpu). (nm, gpu)) qs
                  = map (\<lambda>i. (fst (TEST_CASES ! i), int i mod w)) qorder)"
proof -
  define f where
    "f = (\<lambda>i. run_single_test self (io i) (tcs ! i) (int i mod w))"
  define ord where "ord = (if w = 1 then [0..<length tcs] else order)"
  have a: "\<forall>i<length tcs. gpu_assignments w (length tcs) ! i = int i mod w"
    by (simp add: gpu_assignments_nth)
  have w1: "1 \<le> max_workers self"
    using assms(1,2) by simp
  obtain rs where run: "run_all_tests self defaults io order (Some tcs) = Inr rs"
    and rs: "map Inr rs = map f ord"
    using run_all_tests_results [OF w1 assms(3), of defaults io] assms(2)
    unfolding f_def ord_def by auto
  have "map projr (map (Inr :: TestResult \<Rightarrow> exn + TestResult) rs) = map projr (map f ord)"
    by (simp only: rs)
  then have rs_eq: "rs = map (\<lambda>i. projr (f i)) ord"
    by (simp add: comp_def)
  have fields: "(test_case (projr (f i)), gpu_id (projr (f i))) = (tcs ! i, int i mod w)" for i
    using Inr_projr_run_single_test [of self "io i" "tcs ! i" "int i mod w"]
          run_single_test_fields [of self "io i" "tcs ! i" "int i mod w"]
    unfolding f_def by metis
  have b: "map (\<lambda>r. (test_case r, gpu_id r)) rs = map (\<lambda>i. (tcs ! i, int i mod w)) ord"
    unfolding rs_eq by (simp add: comp_def fields)
  have "map (\<lambda>(nm, desc, ok, dur, sz, gpu). (nm, gpu))
          (map (quick_collect OUTPUT_DIR qio TEST_CASES
                  (gpu_assignments w (length TEST_CASES))) qorder)
        = map (\<lambda>i. (fst (TEST_CASES ! i), int i mod w)) qorder"
    using order_indices [OF assms(4)]
    by (simp add: quick_collect_fields gpu_assignments_nth)
  then have c: "\<exists>qs. run_parallel OUTPUT_DIR TEST_CASES qio qorder w = Inr qs
                  \<and> map (\<lambda>(nm, desc, ok, dur, sz, gpu). (nm, gpu)) qs
                      = map (\<lambda>i. (fst (TEST_CASES ! i), int i mod w)) qorder"
    by (simp add: run_parallel_eq [OF assms(1)])
  show ?thesis
    using a run b c unfolding ord_def by blast
qed

theorem device_slot_is_index_mod_pool_size_witness:
  "(1::int) \<le> 2 \<and> max_workers (ex_tester 2) = 2
   \<and> mset [2, 0, 1] = mset [0..<length [ex_case ''a'', ex_case ''b'', ex_case ''c'']]
   \<and> mset [1, 2, 0] = mset [0..<length ex_quick_cases]
   \<and> (\<exists>rs. run_all_tests (ex_tester 2) [] ex_io_by_index [2, 0, 1]
               (Some [ex_case ''a'', ex_case ''b'', ex_case ''c'']) = Inr rs
          \<and> map (\<lambda>r. (test_case r, gpu_id r)) rs
              = [(ex_case ''c'', 0), (ex_case ''a'', 0), (ex_case ''b'', 1)])
   \<and> (\<exists>qs. run_parallel ''./output_quick'' ex_quick_cases ex_io_by_index [1, 2, 0] 2 = Inr qs
          \<and> map (\<lambda>(nm, desc, ok, dur, sz, gpu). (nm, gpu)) qs
              = [(''fast'', 1), (''sh1'', 0), (''baseline'', 0)])"
proof -
  have h1: "(1::int) \<le> 2" by simp
  have h2: "max_workers (ex_tester 2) = 2" by (simp add: ex_tester_def)
  have h3: "mset [2, 0, 1] = mset [0..<length [ex_case ''a'', ex_case ''b'', ex_case ''c'']]"
    by (simp add: upt_rec)
  have h4: "mset [1, 2, 0] = mset [0..<length ex_quick_cases]"
    by (simp add: upt_rec ex_quick_cases_def)
  show ?thesis
    using device_slot_is_index_mod_pool_size
            [OF h1 h2 h3 h4, of "[]" ex_io_by_index "''./output_quick''" ex_io_by_index]
          h2 h3 h4
    by (simp add: ex_quick_cases_def)
qed

lemma run_single_test_max_workers:
  "run_single_test (self\<lparr>max_workers := w\<rparr>) io tc gpu = run_single_test self io tc gpu"
  by (simp add: run_single_test_def run_single_test_try_def derived_output_file_def
        build_cmd_def)

lemma run_single_test_slot_independent:
  assumes "subprocess_run io (build_cmd self tc) (build_env io g) (Some (timeout self))
             = subprocess_run io (build_cmd self tc) (build_env io 0) (Some (timeout self))"
  shows "projr (run_single_test self io tc g)
           = (projr (run_single_test self io tc 0))\<lparr>gpu_id := g\<rparr>"
  using assms
  by (auto simp: run_single_test_def run_single_test_try_def Let_def
           split: sum.splits exn.splits)

text \<open>
  Claim C7 as stated fails: the slot is an input of the executor. With a subprocess that
  deterministically succeeds only when \<^verbatim>\<open>CUDA_VISIBLE_DEVICES\<close> is \<^verbatim>\<open>0\<close>, two test cases
  both succeed with a pool size of one, and the second fails with a pool size of four.
\<close>

theorem pool_sizes_one_and_four_differ_counterexample:
  "map (\<lambda>r. (TestCase.name (test_case r), success r))
       (projr (run_all_tests (ex_tester 1) [] (\<lambda>i. ex_io_device) [0, 1]
                 (Some [ex_case ''a'', ex_case ''b''])))
     = [(''a'', True), (''b'', True)]
   \<and> map (\<lambda>r. (TestCase.name (test_case r), success r))
       (projr (run_all_tests (ex_tester 4) [] (\<lambda>i. ex_io_device) [0, 1]
                 (Some [ex_case ''a'', ex_case ''b''])))
     = [(''a'', True), (''b'', False)]"
  by (simp add: run_all_tests_def run_parallel_path_def ThreadPoolExecutor_def
        collect_future_def gpu_assignments_def run_single_test_def run_single_test_try_def
        build_env_def py_str_def ex_tester_def ex_io_device_def ex_exit_def ex_case_def
        upt_rec)

text \<open>
  The comparison of the two branches where console writes are taken to succeed: the serial
  run, the parallel branch run with a pool size of one under the submission order and
  under any completion order, and the run with a pool size of four.
\<close>

lemma serial_and_parallel_agree_core:
  assumes "max_workers self = 1"
    and "mset order = mset [0..<length tcs]"
    and "\<forall>i<length tcs. \<forall>g.
           subprocess_run (io i) (build_cmd self (tcs ! i)) (build_env (io i) g)
             (Some (timeout self))
           = subprocess_run (io i) (build_cmd self (tcs ! i)) (build_env (io i) 0)
               (Some (timeout self))"
  shows "\<exists>rs1 rsp rs4.
           run_all_tests self defaults io order1 (Some tcs) = Inr rs1
         \<and> rs1 = map (\<lambda>i. projr (run_single_test self (io i) (tcs ! i) 0)) [0..<length tcs]
         \<and> run_parallel_path self io [0..<length tcs] tcs = Inr rs1
         \<and> run_parallel_path self io order tcs = Inr rsp
         \<and> mset rsp = mset rs1
         \<and> run_all_tests (self\<lparr>max_workers := 4\<rparr>) defaults io order (Some tcs) = Inr rs4
         \<and> mset (map (\<lambda>r. (TestCase.name (test_case r), success r)) rs4)
             = mset (map (\<lambda>r. (TestCase.name (test_case r), success r)) rs1)"
proof -
  define g1 where "g1 = (\<lambda>i. projr (run_single_test self (io i) (tcs ! i) 0))"
  define cf1 where "cf1 = collect_future self io tcs (gpu_assignments 1 (length tcs))"
  define g4 where
    "g4 = collect_future (self\<lparr>max_workers := 4\<rparr>) io tcs (gpu_assignments 4 (length tcs))"
  define key where "key = (\<lambda>r :: TestResult. (TestCase.name (test_case r), success r))"
  have serial: "run_all_tests self defaults io order1 (Some tcs) = Inr (map g1 [0..<length tcs])"
    unfolding g1_def using assms(1) by (simp add: run_all_tests_serial)
  have cf1_eq: "cf1 i = g1 i" if "i < length tcs" for i
    unfolding cf1_def g1_def using that
    by (simp add: collect_future_projr gpu_assignments_nth)
  have "map cf1 [0..<length tcs] = map g1 [0..<length tcs]"
    by (rule map_cong [OF refl]) (simp add: cf1_eq)
  then have par1: "run_parallel_path self io [0..<length tcs] tcs = Inr (map g1 [0..<length tcs])"
    using assms(1) by (simp add: run_parallel_path_def ThreadPoolExecutor_def cf1_def)
  have "map cf1 order = map g1 order"
    by (rule map_cong [OF refl]) (simp add: cf1_eq order_indices [OF assms(2)])
  then have par1_any: "run_parallel_path self io order tcs = Inr (map g1 order)"
    using assms(1) by (simp add: run_parallel_path_def ThreadPoolExecutor_def cf1_def)
  have par1_mset: "mset (map g1 order) = mset (map g1 [0..<length tcs])"
    by (rule completion_order_mset [OF assms(2)])
  have par4: "run_all_tests (self\<lparr>max_workers := 4\<rparr>) defaults io order (Some tcs)
                = Inr (map g4 order)"
    unfolding g4_def by (simp add: run_all_tests_parallel)
  have key_eq: "key (g4 i) = key (g1 i)" if i: "i < length tcs" for i
  proof -
    have "g4 i = projr (run_single_test self (io i) (tcs ! i) (int i mod 4))"
      unfolding g4_def using i
      by (simp add: collect_future_projr gpu_assignments_nth run_single_test_max_workers)
    moreover have "projr (run_single_test self (io i) (tcs ! i) (int i mod 4))
                     = (g1 i)\<lparr>gpu_id := int i mod 4\<rparr>"
      unfolding g1_def
    proof (rule run_single_test_slot_independent)
      show "subprocess_run (io i) (build_cmd self (tcs ! i)) (build_env (io i) (int i mod 4))
              (Some (timeout self))
            = subprocess_run (io i) (build_cmd self (tcs ! i)) (build_env (io i) 0)
                (Some (timeout self))"
        using assms(3) i by blast
    qed
    ultimately show ?thesis by (simp add: key_def)
  qed
  have "map key (map g4 order) = map (\<lambda>i. key (g1 i)) order"
    using order_indices [OF assms(2)] by (simp add: key_eq)
  then have "mset (map key (map g4 order)) = mset (map (\<lambda>i. key (g1 i)) [0..<length tcs])"
    by (simp only: completion_order_mset [OF assms(2)])
  then have "mset (map key (map g4 order)) = mset (map key (map g1 [0..<length tcs]))"
    by (simp add: comp_def)
  then have keys: "mset (map (\<lambda>r. (TestCase.name (test_case r), success r)) (map g4 order))
               = mset (map (\<lambda>r. (TestCase.name (test_case r), success r))
                        (map g1 [0..<length tcs]))"
    unfolding key_def .
  show ?thesis
    apply (rule exI [of _ "map g1 [0..<length tcs]"])
    apply (rule exI [of _ "map g1 order"])
    apply (rule exI [of _ "map g4 order"])
    apply (intro conjI)
          apply (rule serial)
         apply (simp add: g1_def)
        apply (rule par1)
       apply (rule par1_any)
      apply (rule par1_mset)
     apply (rule par4)
    apply (rule keys)
    done
qed

text \<open>
  Claim C7, amended. Take a pool size of one, consoles that take every write of the run,
  and no exception outside class \<^verbatim>\<open>Exception\<close>, so that no call of \<^verbatim>\<open>run_single_test\<close>
  raises. Then \<^verbatim>\<open>run_all_tests\<close> runs the trials one after the other in input order on
  slot 0; the parallel branch run with a pool size of one returns the same list when the
  futures are collected in submission order, and the same results as an unordered
  collection under any completion order. When in addition the outcome of the subprocess
  of every trial does not depend on the value of \<^verbatim>\<open>CUDA_VISIBLE_DEVICES\<close>, the run with a
  pool size of four, under any completion order, returns results with the same names and
  the same success flags as the run with a pool size of one, as unordered collections.
\<close>

theorem serial_and_parallel_agree_when_nothing_raises:
  assumes "max_workers self = 1"
    and "mset order = mset [0..<length tcs]"
    and "print_header sched = None"
    and "\<forall>i<length tcs. con i = quiet_console \<and> print_progress sched i = None
                         \<and> print_done sched i = None"
    and "\<forall>i<length tcs. \<forall>g.
           subprocess_run (io i) (build_cmd self (tcs ! i)) (build_env (io i) g)
             (Some (timeout self))
           = subprocess_run (io i) (build_cmd self (tcs ! i)) (build_env (io i) 0)
               (Some (timeout self))"
  shows "\<exists>rs1 rsp rs4.
           run_all_tests_full self defaults io con sched order1 (Some tcs) = Inr rs1
         \<and> map Inr rs1
             = map (\<lambda>i. run_single_test_full self (io i) (con i) (tcs ! i) 0) [0..<length tcs]
         \<and> run_parallel_path_full self io con sched [0..<length tcs] tcs = Inr rs1
         \<and> run_parallel_path_full self io con sched order tcs = Inr rsp
         \<and> mset rsp = mset rs1
         \<and> run_all_tests_full (self\<lparr>max_workers := 4\<rparr>) defaults io con sched order (Some tcs)
             = Inr rs4
         \<and> mset (map (\<lambda>r. (TestCase.name (test_case r), success r)) rs4)
             = mset (map (\<lambda>r. (TestCase.name (test_case r), success r)) rs1)"
proof -
  obtain rs1 rsp rs4 where core:
    "run_all_tests self defaults io [0..<length tcs] (Some tcs) = Inr rs1"
    "rs1 = map (\<lambda>i. projr (run_single_test self (io i) (tcs ! i) 0)) [0..<length tcs]"
    "run_parallel_path self io [0..<length tcs] tcs = Inr rs1"
    "run_parallel_path self io order tcs = Inr rsp"
    "mset rsp = mset rs1"
    "run_all_tests (self\<lparr>max_workers := 4\<rparr>) defaults io order (Some tcs) = Inr rs4"
    "mset (map (\<lambda>r. (TestCase.name (test_case r), success r)) rs4)
       = mset (map (\<lambda>r. (TestCase.name (test_case r), success r)) rs1)"
    using serial_and_parallel_agree_core [OF assms(1,2,5), of defaults "[0..<length tcs]"]
    by blast
  have quiet_in_order: "\<forall>i\<in>set [0..<length tcs]. con i = quiet_console \<and> print_done sched i = None"
    using assms(4) by simp
  have quiet_order: "\<forall>i\<in>set order. con i = quiet_console \<and> print_done sched i = None"
    using assms(4) order_indices [OF assms(2)] by blast
  have serial_core: "run_all_tests self defaults io order1 (Some tcs) = Inr rs1"
    using core(1) assms(1) by (simp add: run_all_tests_def)
  have "run_all_tests_full self defaults io con sched order1 (Some tcs)
          = map_sum Exc id (run_all_tests self defaults io order1 (Some tcs))"
    using assms(1,3,4)
    by (simp add: run_all_tests_full_def run_all_tests_def run_serial_loop_full_quiet
          run_serial_loop_eq)
  then have a: "run_all_tests_full self defaults io con sched order1 (Some tcs) = Inr rs1"
    using serial_core by simp
  have b: "map Inr rs1
             = map (\<lambda>i. run_single_test_full self (io i) (con i) (tcs ! i) 0) [0..<length tcs]"
    unfolding core(2) using assms(4)
    by (simp add: run_single_test_full_quiet_Inr)
  have c: "run_parallel_path_full self io con sched [0..<length tcs] tcs = Inr rs1"
    using run_parallel_path_full_quiet [OF quiet_in_order, of self io tcs] core(3) by simp
  have d: "run_parallel_path_full self io con sched order tcs = Inr rsp"
    using run_parallel_path_full_quiet [OF quiet_order, of self io tcs] core(4) by simp
  have e: "run_all_tests_full (self\<lparr>max_workers := 4\<rparr>) defaults io con sched order (Some tcs)
             = Inr rs4"
    using run_all_tests_full_quiet [OF assms(3,4,2), of "self\<lparr>max_workers := 4\<rparr>" defaults io]
          core(6)
    by simp
  show ?thesis
    using a b c d core(5) e core(7) by blast
qed

theorem serial_and_parallel_agree_when_nothing_raises_witness:
  "max_workers (ex_tester 1) = 1
   \<and> mset [1, 0] = mset [0..<length [ex_case ''a'', ex_case ''b'']]
   \<and> print_header quiet_sched = None
   \<and> (\<exists>rs1 rsp rs4.
         run_all_tests_full (ex_tester 1) [] ex_io_by_index (\<lambda>i. quiet_console) quiet_sched []
           (Some [ex_case ''a'', ex_case ''b'']) = Inr rs1
       \<and> run_parallel_path_full (ex_tester 1) ex_io_by_index (\<lambda>i. quiet_console) quiet_sched
             [0..<length [ex_case ''a'', ex_case ''b'']] [ex_case ''a'', ex_case ''b''] = Inr rs1
       \<and> run_parallel_path_full (ex_tester 1) ex_io_by_index (\<lambda>i. quiet_console) quiet_sched
             [1, 0] [ex_case ''a'', ex_case ''b''] = Inr rsp
       \<and> mset rsp = mset rs1
       \<and> run_all_tests_full ((ex_tester 1)\<lparr>max_workers := 4\<rparr>) [] ex_io_by_index
             (\<lambda>i. quiet_console) quiet_sched [1, 0] (Some [ex_case ''a'', ex_case ''b''])
           = Inr rs4
       \<and> mset (map (\<lambda>r. (TestCase.name (test_case r), success r)) rs4)
           = mset (map (\<lambda>r. (TestCase.name (test_case r), success r)) rs1))"
proof -
  have h1: "max_workers (ex_tester 1) = 1"
    by (simp add: ex_tester_def)
  have h2: "mset [1, 0] = mset [0..<length [ex_case ''a'', ex_case ''b'']]"
    by (simp add: upt_rec)
  have h3: "print_header quiet_sched = None"
    by (simp add: quiet_sched_def)
  have h4: "\<forall>i<length [ex_case ''a'', ex_case ''b''].
              (\<lambda>i. quiet_console) i = quiet_console \<and> print_progress quiet_sched i = None
              \<and> print_done quiet_sched i = None"
    by (simp add: quiet_sched_def)
  have h5: "\<forall>i<length [ex_case ''a'', ex_case ''b'']. \<forall>g.
              subprocess_run (ex_io_by_index i)
                (build_cmd (ex_tester 1) ([ex_case ''a'', ex_case ''b''] ! i))
                (build_env (ex_io_by_index i) g) (Some (timeout (ex_tester 1)))
              = subprocess_run (ex_io_by_index i)
                  (build_cmd (ex_tester 1) ([ex_case ''a'', ex_case ''b''] ! i))
                  (build_env (ex_io_by_index i) 0) (Some (timeout (ex_tester 1)))"
    by (simp add: ex_io_by_index_def ex_io_def)
  show ?thesis
    using serial_and_parallel_agree_when_nothing_raises [OF h1 h2 h3 h4 h5, of "[]" "[]"] h1 h2 h3
    by blast
qed




section \<open>Properties of the grouping of print_comparison\<close>

lemma count_list_filter:
  "count_list (filter P xs) m = (if P m then count_list xs m else 0)"
  by (induction xs) auto

lemma fold_union_sets:
  "fold (\<lambda>g acc. acc \<union> set g) gs A = A \<union> \<Union>(set ` set gs)"
  by (induction gs arbitrary: A) auto

lemma assigned_ids_iff:
  "m \<in> assigned_ids groups \<longleftrightarrow> (\<exists>k ms. (k, ms) \<in> set groups \<and> m \<in> set ms)"
  by (force simp: assigned_ids_def fold_union_sets)

lemma initial_groups_split:
  "initial_groups heap models = butlast (initial_groups heap models) @ [(Other, [])]"
  by (simp add: initial_groups_def)

lemma comparison_groups_split:
  "comparison_groups heap models
     = butlast (initial_groups heap models)
       @ [(Other, [m \<leftarrow> models. m \<notin> assigned_ids (initial_groups heap models)])]"
  by (simp add: comparison_groups_def Let_def initial_groups_def)

lemma rule_groups_keys:
  "(k, ms) \<in> set (butlast (initial_groups heap models)) \<Longrightarrow> k \<noteq> Other"
  by (auto simp: initial_groups_def)

lemma rule_groups_filter:
  "(k, ms) \<in> set (butlast (initial_groups heap models)) \<Longrightarrow> m \<in> set ms
     \<Longrightarrow> count_list ms m = count_list models m"
  by (auto simp: initial_groups_def count_list_filter)

lemma assigned_ids_rules:
  "m \<in> assigned_ids (initial_groups heap models)
     \<longleftrightarrow> (\<exists>k ms. (k, ms) \<in> set (butlast (initial_groups heap models)) \<and> m \<in> set ms)"
proof -
  have "set (initial_groups heap models)
          = set (butlast (initial_groups heap models)) \<union> {(Other, [])}"
    by (subst initial_groups_split) simp
  then show ?thesis
    unfolding assigned_ids_iff by auto
qed

text \<open>
  Claim C8 as stated fails: the rules test whether the name contains a marker, each rule
  on its own, so a model named \<^verbatim>\<open>scale_2_sh_1\<close> is listed under the resolution category and
  under the spherical-harmonics category.
\<close>

theorem model_in_two_categories_counterexample:
  "comparison_groups ex_heap [0]
     = [(Iterations, []), (Resolution, [0]), (SphericalHarmonics, [0]), (SsimWeight, []),
        (RefineEvery, []), (GradThreshold, []), (SizeThreshold, []), (Combined, []),
        (Other, [])]"
proof -
  have g: "initial_groups ex_heap [0]
     = [(Iterations, []), (Resolution, [0]), (SphericalHarmonics, [0]), (SsimWeight, []),
        (RefineEvery, []), (GradThreshold, []), (SizeThreshold, []), (Combined, []),
        (Other, [])]"
    by (simp add: initial_groups_def ex_heap_def sublist_Cons_right)
  have a: "assigned_ids (initial_groups ex_heap [0]) = {0}"
    unfolding g by (simp add: assigned_ids_def)
  show ?thesis
    unfolding comparison_groups_def Let_def a unfolding g by simp
qed


lemma assigned_ids_by_name:
  "m \<in> assigned_ids (initial_groups heap models) \<longleftrightarrow>
     m \<in> set models
     \<and> (sublist ''iters_'' (ModelInfo.name (heap m)) \<or> sublist ''scale_'' (ModelInfo.name (heap m))
        \<or> sublist ''sh_'' (ModelInfo.name (heap m)) \<or> sublist ''ssim_'' (ModelInfo.name (heap m))
        \<or> sublist ''refine_'' (ModelInfo.name (heap m)) \<or> sublist ''grad_'' (ModelInfo.name (heap m))
        \<or> sublist ''size_'' (ModelInfo.name (heap m))
        \<or> ModelInfo.name (heap m) \<in> set [''baseline'', ''fast_preview'', ''quality''])"
  by (auto simp: assigned_ids_def initial_groups_def)

lemma comparison_groups_by_name:
  "comparison_groups heap models =
     [(Iterations, [m \<leftarrow> models. sublist ''iters_'' (ModelInfo.name (heap m))]),
      (Resolution, [m \<leftarrow> models. sublist ''scale_'' (ModelInfo.name (heap m))]),
      (SphericalHarmonics, [m \<leftarrow> models. sublist ''sh_'' (ModelInfo.name (heap m))]),
      (SsimWeight, [m \<leftarrow> models. sublist ''ssim_'' (ModelInfo.name (heap m))]),
      (RefineEvery, [m \<leftarrow> models. sublist ''refine_'' (ModelInfo.name (heap m))]),
      (GradThreshold, [m \<leftarrow> models. sublist ''grad_'' (ModelInfo.name (heap m))]),
      (SizeThreshold, [m \<leftarrow> models. sublist ''size_'' (ModelInfo.name (heap m))]),
      (Combined, [m \<leftarrow> models.
                    ModelInfo.name (heap m) \<in> set [''baseline'', ''fast_preview'', ''quality'']]),
      (Other, [m \<leftarrow> models.
                 \<not> (sublist ''iters_'' (ModelInfo.name (heap m))
                    \<or> sublist ''scale_'' (ModelInfo.name (heap m))
                    \<or> sublist ''sh_'' (ModelInfo.name (heap m))
                    \<or> sublist ''ssim_'' (ModelInfo.name (heap m))
                    \<or> sublist ''refine_'' (ModelInfo.name (heap m))
                    \<or> sublist ''grad_'' (ModelInfo.name (heap m))
                    \<or> sublist ''size_'' (ModelInfo.name (heap m))
                    \<or> ModelInfo.name (heap m) \<in> set [''baseline'', ''fast_preview'', ''quality''])])]"
proof -
  have "[m \<leftarrow> models. m \<notin> assigned_ids (initial_groups heap models)]
          = [m \<leftarrow> models.
                 \<not> (sublist ''iters_'' (ModelInfo.name (heap m))
                    \<or> sublist ''scale_'' (ModelInfo.name (heap m))
                    \<or> sublist ''sh_'' (ModelInfo.name (heap m))
                    \<or> sublist ''ssim_'' (ModelInfo.name (heap m))
                    \<or> sublist ''refine_'' (ModelInfo.name (heap m))
                    \<or> sublist ''grad_'' (ModelInfo.name (heap m))
                    \<or> sublist ''size_'' (ModelInfo.name (heap m))
                    \<or> ModelInfo.name (heap m) \<in> set [''baseline'', ''fast_preview'', ''quality''])]"
    by (rule filter_cong [OF refl]) (simp only: assigned_ids_by_name, blast)
  then show ?thesis
    by (simp add: comparison_groups_def Let_def initial_groups_def)
qed


text \<open>
  Claim C8, amended. Each of the seven marker rules lists, in input order, exactly the
  models whose name contains its marker (a substring test, not a prefix test); the eighth
  rule lists the models named \<^verbatim>\<open>baseline\<close>, \<^verbatim>\<open>fast_preview\<close> or \<^verbatim>\<open>quality\<close>; the catch-all
  category lists exactly the models matching none of the eight rules. Hence the grouping
  is total: every model appears in at least one category; a model is in the catch-all
  category exactly when it is in no other category; and within one category a model is
  listed as often as it occurs in the input list. Nothing limits a model to one rule
  category: it is listed under every rule its name matches.
\<close>

theorem grouping_covers_every_model:
  "comparison_groups heap models
     = [(Iterations, [m \<leftarrow> models. sublist ''iters_'' (ModelInfo.name (heap m))]),
        (Resolution, [m \<leftarrow> models. sublist ''scale_'' (ModelInfo.name (heap m))]),
        (SphericalHarmonics, [m \<leftarrow> models. sublist ''sh_'' (ModelInfo.name (heap m))]),
        (SsimWeight, [m \<leftarrow> models. sublist ''ssim_'' (ModelInfo.name (heap m))]),
        (RefineEvery, [m \<leftarrow> models. sublist ''refine_'' (ModelInfo.name (heap m))]),
        (GradThreshold, [m \<leftarrow> models. sublist ''grad_'' (ModelInfo.name (heap m))]),
        (SizeThreshold, [m \<leftarrow> models. sublist ''size_'' (ModelInfo.name (heap m))]),
        (Combined, [m \<leftarrow> models.
                      ModelInfo.name (heap m) \<in> set [''baseline'', ''fast_preview'', ''quality'']]),
        (Other, [m \<leftarrow> models.
                   \<not> (sublist ''iters_'' (ModelInfo.name (heap m))
                      \<or> sublist ''scale_'' (ModelInfo.name (heap m))
                      \<or> sublist ''sh_'' (ModelInfo.name (heap m))
                      \<or> sublist ''ssim_'' (ModelInfo.name (heap m))
                      \<or> sublist ''refine_'' (ModelInfo.name (heap m))
                      \<or> sublist ''grad_'' (ModelInfo.name (heap m))
                      \<or> sublist ''size_'' (ModelInfo.name (heap m))
                      \<or> ModelInfo.name (heap m)
                           \<in> set [''baseline'', ''fast_preview'', ''quality''])])]
   \<and> (\<forall>m\<in>set models. \<exists>k ms. (k, ms) \<in> set (comparison_groups heap models) \<and> m \<in> set ms)
   \<and> (\<exists>others. map_of (comparison_groups heap models) Other = Some others
          \<and> (\<forall>m\<in>set models.
                 m \<in> set others \<longleftrightarrow>
                 (\<forall>k ms. (k, ms) \<in> set (comparison_groups heap models) \<and> k \<noteq> Other
                            \<longrightarrow> m \<notin> set ms)))
   \<and> (\<forall>(k, ms)\<in>set (comparison_groups heap models).
          \<forall>m\<in>set ms. count_list ms m = count_list models m)"
proof -
  define R where "R = butlast (initial_groups heap models)"
  define others where
    "others = [m \<leftarrow> models. m \<notin> assigned_ids (initial_groups heap models)]"
  have G: "comparison_groups heap models = R @ [(Other, others)]"
    unfolding R_def others_def by (rule comparison_groups_split)
  have keys: "k \<noteq> Other" if "(k, ms) \<in> set R" for k ms
    using that unfolding R_def by (rule rule_groups_keys)
  have counts: "count_list ms m = count_list models m"
    if "(k, ms) \<in> set R" and "m \<in> set ms" for k ms m
    using that unfolding R_def by (rule rule_groups_filter)
  have assigned: "m \<in> assigned_ids (initial_groups heap models)
                    \<longleftrightarrow> (\<exists>k ms. (k, ms) \<in> set R \<and> m \<in> set ms)" for m
    unfolding R_def by (rule assigned_ids_rules)
  have in_others: "m \<in> set others \<longleftrightarrow> m \<in> set models \<and> \<not> (\<exists>k ms. (k, ms) \<in> set R \<and> m \<in> set ms)"
    for m
    unfolding others_def using assigned [of m] by simp
  have setG: "set (comparison_groups heap models) = set R \<union> {(Other, others)}"
    unfolding G by simp
  have total: "\<forall>m\<in>set models. \<exists>k ms. (k, ms) \<in> set (comparison_groups heap models) \<and> m \<in> set ms"
    unfolding setG using in_others by blast
  have "map_of R Other = None"
    using keys by (metis map_of_SomeD not_Some_eq)
  then have lookup: "map_of (comparison_groups heap models) Other = Some others"
    unfolding G by (simp add: map_add_def)
  have catch_all: "\<forall>m\<in>set models.
          m \<in> set others \<longleftrightarrow>
          (\<forall>k ms. (k, ms) \<in> set (comparison_groups heap models) \<and> k \<noteq> Other
                     \<longrightarrow> m \<notin> set ms)"
    unfolding setG using in_others keys by blast
  have second: "\<exists>others. map_of (comparison_groups heap models) Other = Some others
          \<and> (\<forall>m\<in>set models.
                 m \<in> set others \<longleftrightarrow>
                 (\<forall>k ms. (k, ms) \<in> set (comparison_groups heap models) \<and> k \<noteq> Other
                            \<longrightarrow> m \<notin> set ms))"
    using lookup catch_all by blast
  have others_count: "count_list others m = count_list models m" if "m \<in> set others" for m
    using that unfolding others_def by (simp add: count_list_filter)
  have filtered: "\<forall>(k, ms)\<in>set (comparison_groups heap models).
          \<forall>m\<in>set ms. count_list ms m = count_list models m"
    unfolding setG using counts others_count by auto
  show ?thesis
    apply (intro conjI)
       apply (rule comparison_groups_by_name)
      apply (rule total)
     apply (rule second)
    apply (rule filtered)
    done
qed

theorem grouping_covers_every_model_witness:
  "(2::nat) \<in> set [0, 1, 2]
   \<and> (\<exists>k ms. (k, ms) \<in> set (comparison_groups ex_heap [0, 1, 2]) \<and> 2 \<in> set ms)
   \<and> comparison_groups ex_heap [0, 1, 2]
     = [(Iterations, []), (Resolution, [0]), (SphericalHarmonics, [0]), (SsimWeight, []),
        (RefineEvery, []), (GradThreshold, []), (SizeThreshold, []), (Combined, [1]),
        (Other, [2])]"
proof -
  have groups: "comparison_groups ex_heap [0, 1, 2]
     = [(Iterations, []), (Resolution, [0]), (SphericalHarmonics, [0]), (SsimWeight, []),
        (RefineEvery, []), (GradThreshold, []), (SizeThreshold, []), (Combined, [1]),
        (Other, [2])]"
    by (subst conjunct1 [OF grouping_covers_every_model [of ex_heap "[0, 1, 2]"]])
       (simp add: ex_heap_def sublist_Cons_right)
  have m: "(2::nat) \<in> set [0, 1, 2]" by simp
  have "\<exists>k ms. (k, ms) \<in> set (comparison_groups ex_heap [0, 1, 2]) \<and> 2 \<in> set ms"
    using conjunct1 [OF conjunct2 [OF grouping_covers_every_model [of ex_heap "[0, 1, 2]"]]] m
    by blast
  with m groups show ?thesis by blast
qed


section \<open>Properties of parse_ply_header\<close>

lemma readline_append:
  "readline f = (line, f') \<Longrightarrow> f = line @ f'"
  by (induction f arbitrary: line f') (auto split: if_splits prod.splits)

lemma readline_nonempty:
  "readline f = (line, f') \<Longrightarrow> f \<noteq> [] \<Longrightarrow> line \<noteq> []"
  by (cases f) (auto split: if_splits prod.splits)



lemma readline_line:
  "CHR 0x0A \<notin> set l \<Longrightarrow> readline (l @ CHR 0x0A # rest) = (l @ [CHR 0x0A], rest)"
  by (induction l) auto



lemma read_header_step:
  "readline f = (line, f') \<Longrightarrow>
   read_header f header =
     (if sublist ''end_header'' line \<or> 10000 < length (header @ line)
      then Some (header @ line)
      else read_header f' (header @ line))"
  by (subst read_header.simps) (simp add: Let_def)


text \<open>
  At the end of the file \<^verbatim>\<open>readline\<close> returns the empty byte string, which neither contains
  the terminator nor lengthens the header: once the file is exhausted with at most 10000
  bytes read, the loop never leaves.
\<close>

lemma read_header_eof_diverges:
  assumes "length header \<le> 10000"
  shows "read_header [] header = None"
proof -
  have "read_header f hd = Some y \<Longrightarrow> f = [] \<and> length hd \<le> 10000 \<longrightarrow> False" for f hd y
    by (rule read_header.raw_induct
          [where P = "\<lambda>f hd y. f = [] \<and> length hd \<le> 10000 \<longrightarrow> False"])
       (auto simp: Let_def split: if_splits)
  then show ?thesis
    using assms by (cases "read_header [] header") auto
qed

lemma read_header_diverges:
  "\<not> sublist ''end_header'' f \<Longrightarrow> length header + length f \<le> 10000
     \<Longrightarrow> read_header f header = None"
proof (induction "length f" arbitrary: f header rule: less_induct)
  case less
  show ?case
  proof (cases "f = []")
    case True
    then show ?thesis
      using less.prems(2) by (simp add: read_header_eof_diverges)
  next
    case False
    obtain line f' where rl: "readline f = (line, f')" by (cases "readline f")
    have f: "f = line @ f'" using rl by (rule readline_append)
    have no_line: "\<not> sublist ''end_header'' line"
      using less.prems(1) unfolding f by (auto simp: sublist_append)
    have no_rest: "\<not> sublist ''end_header'' f'"
      using less.prems(1) unfolding f by (auto simp: sublist_append)
    have small: "\<not> 10000 < length (header @ line)"
                "length (header @ line) + length f' \<le> 10000"
      using less.prems(2) f by simp_all
    have step: "read_header f header = read_header f' (header @ line)"
      using no_line small(1) by (simp add: read_header_step [OF rl])
    have "line \<noteq> []" using rl False by (rule readline_nonempty)
    then have "length f' < length f" using f by simp
    then have "read_header f' (header @ line) = None"
      using less.hyps no_rest small(2) by blast
    with step show ?thesis by simp
  qed
qed









text \<open>
  So the call does not return on a readable file of at most 10000 bytes without the
  terminator, the empty file among them.
\<close>

lemma parse_ply_header_diverges:
  "fs path = Some content \<Longrightarrow> \<not> sublist ''end_header'' content
     \<Longrightarrow> length content \<le> 10000 \<Longrightarrow> parse_ply_header fs path = None"
  by (simp add: parse_ply_header_def parse_ply_header_try_def read_header_diverges)









lemma parse_ply_header_empty_file_diverges:
  "parse_ply_header [''./output/empty.ply'' \<mapsto> []] ''./output/empty.ply'' = None"
  by (rule parse_ply_header_diverges [where content = "[]"]) simp_all





end
